theory Spec2Isabelle
  imports Complex_Main
begin

section \<open>Values\<close>

text \<open>
  The module \<^verbatim>\<open>ctx_mp.py\<close> defines the number tower (\<^verbatim>\<open>_mpf\<close>, \<^verbatim>\<open>_mpc\<close>,
  \<^verbatim>\<open>_mpi\<close>, \<^verbatim>\<open>_constant\<close>), the context \<^verbatim>\<open>MPContext\<close> and the
  \<^verbatim>\<open>PrecisionManager\<close>. A raw real value is the 4-tuple
  \<^verbatim>\<open>(sign, man, exp, bc)\<close> that the module unpacks everywhere
  (\<^verbatim>\<open>sign, man, exp, bc = x._mpf_\<close>).
\<close>

type_synonym mpf = "int \<times> int \<times> int \<times> int"

datatype rounding = round_nearest | round_floor | round_ceiling | round_down | round_up

datatype error =
    TypeError string
  | ValueError string
  | HypsumValueError int int
  | FormatError
  | ZeroDivisionError string
  | AssertionError string
  | NotImplementedError string
  | ComplexResult
  | UnboundLocalError string
  | IndexError
  | AttributeError string
  | RecursionError
  | KernelError string

text \<open>A Python float is either a dyadic number \<open>m * 2^e\<close> or one of the three specials.\<close>

datatype pyfloat = Float int int | FloatInf | FloatNInf | FloatNaN

text \<open>
  The tower: instances of the four classes in \<^verbatim>\<open>ctx.types\<close>. A constant holds
  its function of \<^verbatim>\<open>(prec, rounding)\<close>.
\<close>

datatype tower =
    Mpf mpf
  | Mpc mpf mpf
  | Mpi mpf mpf
  | Constant "int \<Rightarrow> rounding \<Rightarrow> mpf"

text \<open>
  The Python values the module receives: native numbers, strings, \<^verbatim>\<open>None\<close>, the
  exact rational \<^verbatim>\<open>rational.mpq\<close> (a pair \<^verbatim>\<open>p, q = x\<close>), tower values, and
  objects with no numeric interpretation. None of these values has a method
  \<^verbatim>\<open>_mpmath_\<close>, so the branches \<^verbatim>\<open>hasattr(x, '_mpmath_')\<close> of \<^verbatim>\<open>convert\<close> and
  \<^verbatim>\<open>mpf_convert_arg\<close> are not taken.
\<close>

datatype pyval =
    PyInt int
  | PyFloat pyfloat
  | PyComplex pyfloat pyfloat
  | PyStr string
  | PyNone
  | Mpq int int
  | Tower tower
  | PyOther

section \<open>The numeric kernel\<close>

text \<open>
  Modelled from the spec: the kernel (\<^verbatim>\<open>libmp\<close>) is imported by the module and is not
  part of it. The spec describes a kernel real value as
  \<open>(sign, significand, exponent, bitcount)\<close> plus the special forms zero, +inf, -inf
  and nan. The module itself tells the specials apart from finite values by
  \<^verbatim>\<open>(not man) and exp\<close>: a zero significand with a non-zero exponent.
\<close>

definition fzero :: mpf where "fzero = (0, 0, 0, 0)"
definition fone :: mpf where "fone = (0, 1, 0, 1)"
definition fnone :: mpf where "fnone = (1, 1, 0, 1)"
definition finf :: mpf where "finf = (0, 0, -456, -2)"
definition fninf :: mpf where "fninf = (1, 0, -789, -3)"
definition fnan :: mpf where "fnan = (0, 0, -123, -1)"

text \<open>
  Modelled from the spec: \<^verbatim>\<open>bitcount\<close>, the number of bits of a non-negative
  integer (the fourth component of a kernel real value).
\<close>

function bitcount :: "int \<Rightarrow> int" where
  "bitcount n = (if n \<le> 0 then 0 else 1 + bitcount (n div 2))"
  by pat_completeness auto
termination
  by (relation "measure nat") auto

declare bitcount.simps [simp del]

text \<open>The number of trailing zero bits of a non-zero integer.\<close>

function trailing :: "int \<Rightarrow> nat" where
  "trailing m = (if m = 0 \<or> odd m then 0 else Suc (trailing (m div 2)))"
  by pat_completeness auto
termination
  by (relation "measure (\<lambda>m. nat \<bar>m\<bar>)") auto

declare trailing.simps [simp del]

text \<open>
  Modelled from the spec: directed rounding of a significand that is \<open>n\<close> bits too
  long. Floor and ceiling depend on the sign, since the significand is a magnitude.
\<close>

definition shifts_down :: "rounding \<Rightarrow> int \<Rightarrow> bool" where
  "shifts_down rnd sign =
     (case rnd of
        round_floor \<Rightarrow> sign = 0
      | round_ceiling \<Rightarrow> sign \<noteq> 0
      | round_down \<Rightarrow> True
      | round_up \<Rightarrow> False
      | round_nearest \<Rightarrow> False)"

definition round_shift :: "rounding \<Rightarrow> int \<Rightarrow> int \<Rightarrow> nat \<Rightarrow> int" where
  "round_shift rnd sign man n =
     (if rnd = round_nearest then
        (let t = man div 2 ^ (n - 1) in
         if odd t \<and> (odd (t div 2) \<or> man mod 2 ^ (n - 1) \<noteq> 0)
         then t div 2 + 1 else t div 2)
      else if shifts_down rnd sign then man div 2 ^ n
      else - ((- man) div 2 ^ n))"

text \<open>
  Modelled from the spec: \<^verbatim>\<open>normalize(sign, man, exp, bc, prec, rounding)\<close>, the
  kernel's rounding of a finite value to \<open>prec\<close> bits, with trailing zero bits of the
  significand moved into the exponent.
\<close>

definition normalize_mpf :: "int \<Rightarrow> int \<Rightarrow> int \<Rightarrow> int \<Rightarrow> int \<Rightarrow> rounding \<Rightarrow> mpf" where
  "normalize_mpf sign man ex bc prec rnd =
     (if man = 0 then fzero
      else
        let n = bc - prec;
            man1 = (if n > 0 then round_shift rnd sign man (nat n) else man);
            exp1 = (if n > 0 then ex + n else ex);
            bc1 = (if n > 0 then prec else bc);
            t = trailing man1;
            man2 = man1 div 2 ^ t
        in (sign, man2, exp1 + int t, if man2 = 1 then 1 else bc1 - int t))"

text \<open>
  Modelled from the spec: the lossless constructors \<^verbatim>\<open>from_man_exp\<close>,
  \<^verbatim>\<open>from_int\<close> and \<^verbatim>\<open>from_float\<close>, called by the module without a precision.
\<close>

definition from_man_exp :: "int \<Rightarrow> int \<Rightarrow> mpf" where
  "from_man_exp man ex =
     (if man = 0 then fzero
      else
        let t = trailing man
        in (if man < 0 then 1 else 0, \<bar>man\<bar> div 2 ^ t, ex + int t, bitcount \<bar>man\<bar> - int t))"

definition from_int :: "int \<Rightarrow> mpf" where
  "from_int n = from_man_exp n 0"

fun from_float :: "pyfloat \<Rightarrow> mpf" where
  "from_float (Float m e) = from_man_exp m e"
| "from_float FloatInf = finf"
| "from_float FloatNInf = fninf"
| "from_float FloatNaN = fnan"

text \<open>
  Modelled from the spec: \<^verbatim>\<open>mpf_pos(s, prec, rounding)\<close>, which rounds \<open>s\<close> to the
  given precision and leaves the specials alone.
\<close>

definition mpf_pos :: "mpf \<Rightarrow> int \<Rightarrow> rounding \<Rightarrow> mpf" where
  "mpf_pos s prec rnd =
     (case s of (sign, man, ex, bc) \<Rightarrow>
        if prec = 0 then s
        else if man = 0 \<and> ex \<noteq> 0 then s
        else normalize_mpf sign man ex bc prec rnd)"

text \<open>
  Modelled from the spec: \<^verbatim>\<open>from_rational(p, q, prec)\<close>, the quotient \<open>p/q\<close>
  rounded to \<open>prec\<close> bits. The module passes no rounding mode, so the kernel's default
  applies (toward zero); a remainder is kept as one sticky bit below the quotient.
\<close>

definition from_rational :: "int \<Rightarrow> int \<Rightarrow> int \<Rightarrow> error + mpf" where
  "from_rational p q prec =
     (if q = 0 then Inl (ZeroDivisionError [])
      else if p = 0 then Inr fzero
      else
        let sign = (if (p < 0) \<noteq> (q < 0) then 1 else 0);
            extra = max 5 (prec - bitcount \<bar>p\<bar> + bitcount \<bar>q\<bar> + 5);
            num = \<bar>p\<bar> * 2 ^ nat extra;
            quot = num div \<bar>q\<bar>;
            quot1 = (if num mod \<bar>q\<bar> \<noteq> 0 then 2 * quot + 1 else quot);
            extra1 = (if num mod \<bar>q\<bar> \<noteq> 0 then extra + 1 else extra)
        in Inr (normalize_mpf sign quot1 (- extra1) (bitcount quot1) prec round_down))"

text \<open>The exact value of a finite kernel real value.\<close>

definition pow2 :: "int \<Rightarrow> rat" where
  "pow2 e = (if 0 \<le> e then 2 ^ nat e else 1 / 2 ^ nat (- e))"

definition mpf_value :: "mpf \<Rightarrow> rat" where
  "mpf_value s =
     (case s of (sign, man, ex, bc) \<Rightarrow>
        (if sign = 0 then 1 else - 1) * of_int man * pow2 ex)"

definition is_special :: "mpf \<Rightarrow> bool" where
  "is_special s = (case s of (sign, man, ex, bc) \<Rightarrow> man = 0 \<and> ex \<noteq> 0)"

text \<open>
  Modelled from the spec: the kernel's comparison \<^verbatim>\<open>mpf_le\<close>. A nan compares false
  with everything; \<open>-inf\<close> is below and \<open>+inf\<close> above every finite value.
\<close>

definition mpf_le :: "mpf \<Rightarrow> mpf \<Rightarrow> bool" where
  "mpf_le s t =
     (if s = fnan \<or> t = fnan then False
      else if s = t then True
      else if s = fninf \<or> t = finf then True
      else if s = finf \<or> t = fninf then False
      else mpf_value s \<le> mpf_value t)"

subsection \<open>Values of the summation kernel\<close>

text \<open>
  \<^verbatim>\<open>nint_distance\<close> returns distances that are integers or \<^verbatim>\<open>ctx.ninf\<close>, and
  \<^verbatim>\<open>hypsum\<close> negates, adds and compares them: integers extended by the two
  infinities. (A sum of \<open>+inf\<close> and \<open>-inf\<close> does not occur: the sums of \<^verbatim>\<open>hypsum\<close>
  add absolute values, or values above 4.)
\<close>

datatype eint = MInf | Fin int | PInf

fun eneg :: "eint \<Rightarrow> eint" where
  "eneg MInf = PInf"
| "eneg (Fin n) = Fin (- n)"
| "eneg PInf = MInf"

fun eabs :: "eint \<Rightarrow> eint" where
  "eabs MInf = PInf"
| "eabs (Fin n) = Fin \<bar>n\<bar>"
| "eabs PInf = PInf"

fun elt :: "eint \<Rightarrow> eint \<Rightarrow> bool" where
  "elt (Fin a) (Fin b) = (a < b)"
| "elt MInf MInf = False"
| "elt MInf b = True"
| "elt a PInf = (a \<noteq> PInf)"
| "elt a b = False"

definition emax :: "eint \<Rightarrow> eint \<Rightarrow> eint" where
  "emax a b = (if elt a b then b else a)"

fun eadd :: "eint \<Rightarrow> eint \<Rightarrow> eint" where
  "eadd (Fin a) (Fin b) = Fin (a + b)"
| "eadd PInf b = PInf"
| "eadd a PInf = PInf"
| "eadd a b = MInf"

text \<open>
  The raw value \<^verbatim>\<open>v\<close> that \<^verbatim>\<open>hypsum\<close> hands to the summation kernel is
  \<^verbatim>\<open>z._mpf_\<close> or \<^verbatim>\<open>z._mpc_\<close>. The kernel returns the triple
  \<^verbatim>\<open>(zv, have_complex, magnitude)\<close>, where \<^verbatim>\<open>have_complex\<close> tells which of the two
  kinds \<^verbatim>\<open>zv\<close> is, and fills in the dictionary \<^verbatim>\<open>mag_dict\<close> it was given.
\<close>

datatype kval = KReal mpf | KComplex mpf mpf

fun have_complex :: "kval \<Rightarrow> bool" where
  "have_complex (KReal x) = False"
| "have_complex (KComplex re im) = True"

record hyp_kwargs =
  kw_maxprec :: "int option"
  kw_zeroprec :: "int option"

type_synonym hyp_key = "nat \<times> nat \<times> string \<times> char"

type_synonym mag_dict = "(int \<times> int option) list"

type_synonym summator =
  "pyval list \<Rightarrow> kval \<Rightarrow> int \<Rightarrow> int \<Rightarrow> int \<Rightarrow> mag_dict \<Rightarrow> hyp_kwargs
   \<Rightarrow> error + (kval \<times> int \<times> mag_dict)"

subsection \<open>The collaborators\<close>

text \<open>
  The collaborators that the module calls and that are taken as they come: the decimal
  string parser \<^verbatim>\<open>from_str\<close>; the handler of \<^verbatim>\<open>convert\<close> for strings that
  \<^verbatim>\<open>from_str\<close> rejects (fractions, complex and interval literals); the two
  conversions between bits and decimal digits; Python's ordering \<^verbatim>\<open>x <= y\<close> of
  operands other than two integers; \<^verbatim>\<open>_default_hyper_maxprec\<close> of the base context;
  the factory of summation kernels, \<^verbatim>\<open>make_hyp_summator\<close> (the memo
  \<^verbatim>\<open>hyp_summators\<close> only saves calling it again with the same key); and the three
  square roots that \<^verbatim>\<open>init_builtins\<close> hands to \<^verbatim>\<open>def_mp_function\<close>.
\<close>

record kernel =
  from_str :: "string \<Rightarrow> int \<Rightarrow> rounding \<Rightarrow> error + mpf"
  convert_str_except :: "string \<Rightarrow> int \<Rightarrow> rounding \<Rightarrow> error \<Rightarrow> error + tower"
  prec_to_dps :: "int \<Rightarrow> int"
  dps_to_prec :: "int \<Rightarrow> int"
  cmp_other :: "pyval \<Rightarrow> pyval \<Rightarrow> error + bool"
  default_hyper_maxprec :: "int \<Rightarrow> int"
  make_hyp_summator :: "hyp_key \<Rightarrow> summator"
  mpf_sqrt :: "mpf \<Rightarrow> int \<Rightarrow> rounding \<Rightarrow> error + mpf"
  mpc_sqrt :: "mpf \<times> mpf \<Rightarrow> int \<Rightarrow> rounding \<Rightarrow> error + mpf \<times> mpf"
  mpi_sqrt :: "mpf \<times> mpf \<Rightarrow> int \<Rightarrow> error + mpf \<times> mpf"

section \<open>The context\<close>

text \<open>
  \<^verbatim>\<open>MPContext\<close> keeps the precision twice, in \<^verbatim>\<open>_prec\<close> and in
  \<^verbatim>\<open>_prec_rounding[0]\<close>, the digits in \<^verbatim>\<open>_dps\<close>, and the flag
  \<^verbatim>\<open>trap_complex\<close>.
\<close>

record ctx =
  c_prec :: int
  c_dps :: int
  prec_rounding :: "int \<times> rounding"
  trap_complex :: bool

definition make_mpf :: "mpf \<Rightarrow> tower" where
  "make_mpf v = Mpf v"

definition make_mpc :: "mpf \<times> mpf \<Rightarrow> tower" where
  "make_mpc v = Mpc (fst v) (snd v)"

definition make_mpi :: "mpf \<times> mpf \<Rightarrow> tower" where
  "make_mpi v = Mpi (fst v) (snd v)"

subsection \<open>convert\<close>

definition convert :: "kernel \<Rightarrow> ctx \<Rightarrow> pyval \<Rightarrow> bool \<Rightarrow> error + tower" where
  "convert K c x strings =
     (case x of
        Tower t \<Rightarrow> Inr t
      | PyInt n \<Rightarrow> Inr (make_mpf (from_int n))
      | PyFloat f \<Rightarrow> Inr (make_mpf (from_float f))
      | PyComplex re im \<Rightarrow> Inr (make_mpc (from_float re, from_float im))
      | Mpq p q \<Rightarrow>
          (case from_rational p q (fst (prec_rounding c)) of
             Inl e \<Rightarrow> Inl e
           | Inr v \<Rightarrow> Inr (make_mpf v))
      | PyStr s \<Rightarrow>
          if strings then
            (case from_str K s (fst (prec_rounding c)) (snd (prec_rounding c)) of
               Inr v \<Rightarrow> Inr (make_mpf v)
             | Inl e \<Rightarrow>
                 convert_str_except K s (fst (prec_rounding c)) (snd (prec_rounding c)) e)
          else Inl (TypeError ''cannot create mpf from '')
      | PyNone \<Rightarrow> Inl (TypeError ''cannot create mpf from '')
      | PyOther \<Rightarrow> Inl (TypeError ''cannot create mpf from ''))"

subsection \<open>isnpint\<close>

text \<open>
  \<^verbatim>\<open>not x\<close>: a real is false when it is \<^verbatim>\<open>fzero\<close>, a complex when both parts
  are, an integer when it is 0; an \<^verbatim>\<open>mpq\<close> unpacks as a pair, and the branch for it
  tests \<^verbatim>\<open>not p\<close> itself.
\<close>

definition isnpint_mpf :: "mpf \<Rightarrow> bool" where
  "isnpint_mpf v =
     (if v = fzero then True
      else case v of (sign, man, ex, bc) \<Rightarrow> sign \<noteq> 0 \<and> ex \<ge> 0)"

definition isnpint_tower :: "ctx \<Rightarrow> tower \<Rightarrow> error + bool" where
  "isnpint_tower c t =
     (case t of
        Mpf v \<Rightarrow> Inr (isnpint_mpf v)
      | Constant f \<Rightarrow> Inr (isnpint_mpf (f (fst (prec_rounding c)) (snd (prec_rounding c))))
      | Mpc re im \<Rightarrow>
          if (re, im) = (fzero, fzero) then Inr True
          else Inr (im = fzero \<and> isnpint_mpf re)
      | Mpi a b \<Rightarrow> Inl RecursionError)"

definition isnpint_mpq :: "int \<Rightarrow> int \<Rightarrow> bool" where
  "isnpint_mpq p q = (if p = 0 then True else q mod p = 0 \<and> p \<le> 0)"

definition float_is_zero :: "pyfloat \<Rightarrow> bool" where
  "float_is_zero f = (case f of Float m e \<Rightarrow> m = 0 | _ \<Rightarrow> False)"

definition isnpint :: "kernel \<Rightarrow> ctx \<Rightarrow> pyval \<Rightarrow> error + bool" where
  "isnpint K c x =
     (case x of
        Tower t \<Rightarrow> isnpint_tower c t
      | PyInt n \<Rightarrow> Inr (if n = 0 then True else n \<le> 0)
      | Mpq p q \<Rightarrow> Inr (isnpint_mpq p q)
      | PyNone \<Rightarrow> Inr True
      | PyFloat f \<Rightarrow>
          if float_is_zero f then Inr True
          else (case convert K c x True of Inl e \<Rightarrow> Inl e | Inr t \<Rightarrow> isnpint_tower c t)
      | PyComplex re im \<Rightarrow>
          if float_is_zero re \<and> float_is_zero im then Inr True
          else (case convert K c x True of Inl e \<Rightarrow> Inl e | Inr t \<Rightarrow> isnpint_tower c t)
      | PyStr s \<Rightarrow>
          if s = [] then Inr True
          else (case convert K c x True of Inl e \<Rightarrow> Inl e | Inr t \<Rightarrow> isnpint_tower c t)
      | PyOther \<Rightarrow>
          (case convert K c x True of Inl e \<Rightarrow> Inl e | Inr t \<Rightarrow> isnpint_tower c t))"

subsection \<open>Ordering comparisons of complex numbers and intervals\<close>

text \<open>
  Python evaluates \<^verbatim>\<open>x < y\<close> by the method \<^verbatim>\<open>__lt__\<close> of \<open>x\<close>; when the class
  of \<open>x\<close> has no such method, or the method returns \<^verbatim>\<open>NotImplemented\<close>, it calls
  the reflected method of \<open>y\<close> with the operands swapped (\<^verbatim>\<open>__gt__\<close> for
  \<^verbatim>\<open>__lt__\<close>, \<^verbatim>\<open>__ge__\<close> for \<^verbatim>\<open>__le__\<close>, and back). When neither answers, the
  interpreter falls back to its default ordering.
\<close>

datatype cmpop = Lt | Le | Gt | Ge

datatype cmpres = Answer bool | NotImplemented | DefaultOrdering

type_synonym cmpmethod = "tower \<Rightarrow> tower \<Rightarrow> error + cmpres"

fun swapped :: "cmpop \<Rightarrow> cmpop" where
  "swapped Lt = Gt"
| "swapped Gt = Lt"
| "swapped Le = Ge"
| "swapped Ge = Le"

definition half_richcompare ::
  "(cmpop \<Rightarrow> cmpmethod option) \<Rightarrow> cmpop \<Rightarrow> tower \<Rightarrow> tower \<Rightarrow> error + cmpres" where
  "half_richcompare methods opr x y =
     (case methods opr of None \<Rightarrow> Inr NotImplemented | Some m \<Rightarrow> m x y)"

definition rich_compare ::
  "(cmpop \<Rightarrow> cmpmethod option) \<Rightarrow> (cmpop \<Rightarrow> cmpmethod option) \<Rightarrow>
   cmpop \<Rightarrow> tower \<Rightarrow> tower \<Rightarrow> error + cmpres" where
  "rich_compare mx my opr x y =
     (case half_richcompare mx opr x y of
        Inr NotImplemented \<Rightarrow>
          (case half_richcompare my (swapped opr) y x of
             Inr NotImplemented \<Rightarrow> Inr DefaultOrdering
           | r \<Rightarrow> r)
      | r \<Rightarrow> r)"

text \<open>
  \<^verbatim>\<open>_mpc._compare\<close> and \<^verbatim>\<open>_mpi._compare\<close> raise. Each class body binds the method
  to \<^verbatim>\<open>__gt__\<close>, \<^verbatim>\<open>__le__\<close>, \<^verbatim>\<open>__gt__\<close> once more, and \<^verbatim>\<open>__ge__\<close>;
  \<^verbatim>\<open>__lt__\<close> is not bound.
\<close>

definition mpc_compare :: cmpmethod where
  "mpc_compare s t = Inl (TypeError ''no ordering relation is defined for complex numbers'')"

definition mpi_compare :: cmpmethod where
  "mpi_compare s t = Inl (TypeError ''no ordering relation is defined for intervals'')"

definition mpc_methods :: "cmpop \<Rightarrow> cmpmethod option" where
  "mpc_methods opr =
     (case opr of
        Gt \<Rightarrow> Some mpc_compare
      | Le \<Rightarrow> Some mpc_compare
      | Ge \<Rightarrow> Some mpc_compare
      | Lt \<Rightarrow> None)"

definition mpi_methods :: "cmpop \<Rightarrow> cmpmethod option" where
  "mpi_methods opr =
     (case opr of
        Gt \<Rightarrow> Some mpi_compare
      | Le \<Rightarrow> Some mpi_compare
      | Ge \<Rightarrow> Some mpi_compare
      | Lt \<Rightarrow> None)"

definition mpc_order :: "cmpop \<Rightarrow> mpf \<times> mpf \<Rightarrow> mpf \<times> mpf \<Rightarrow> error + cmpres" where
  "mpc_order opr x y = rich_compare mpc_methods mpc_methods opr (make_mpc x) (make_mpc y)"

definition mpi_order :: "cmpop \<Rightarrow> mpf \<times> mpf \<Rightarrow> mpf \<times> mpf \<Rightarrow> error + cmpres" where
  "mpi_order opr x y = rich_compare mpi_methods mpi_methods opr (make_mpi x) (make_mpi y)"

subsection \<open>Precision and digits\<close>

text \<open>\<^verbatim>\<open>__init__\<close> followed by \<^verbatim>\<open>default\<close>: 53 bits, 15 digits, no trapping.\<close>

definition init_ctx :: ctx where
  "init_ctx = \<lparr>c_prec = 53, c_dps = 15, prec_rounding = (53, round_nearest),
               trap_complex = False\<rparr>"

definition set_prec :: "kernel \<Rightarrow> int \<Rightarrow> ctx \<Rightarrow> ctx" where
  "set_prec K n c =
     c\<lparr>c_prec := max 1 n,
       prec_rounding := (max 1 n, snd (prec_rounding c)),
       c_dps := prec_to_dps K n\<rparr>"

definition set_dps :: "kernel \<Rightarrow> int \<Rightarrow> ctx \<Rightarrow> ctx" where
  "set_dps K n c =
     c\<lparr>c_prec := dps_to_prec K n,
       prec_rounding := (dps_to_prec K n, snd (prec_rounding c)),
       c_dps := max 1 n\<rparr>"

text \<open>
  The digits follow the precision when they are the conversion \<^verbatim>\<open>prec_to_dps\<close> of
  the precision, both copies of the precision agree, and both numbers are at least 1.
\<close>

definition digits_follow_precision :: "kernel \<Rightarrow> ctx \<Rightarrow> bool" where
  "digits_follow_precision K c =
     (c_dps c = prec_to_dps K (c_prec c) \<and> fst (prec_rounding c) = c_prec c
      \<and> 1 \<le> c_prec c \<and> 1 \<le> c_dps c)"

text \<open>
  What C6 asks, in the claim's words: the two fields are mutually consistent under the
  two conversions, each being the conversion of the other, and both are at least 1.
\<close>

definition mutually_consistent :: "kernel \<Rightarrow> ctx \<Rightarrow> bool" where
  "mutually_consistent K c =
     (c_dps c = prec_to_dps K (c_prec c) \<and> c_prec c = dps_to_prec K (c_dps c)
      \<and> fst (prec_rounding c) = c_prec c \<and> 1 \<le> c_prec c \<and> 1 \<le> c_dps c)"

text \<open>
  Modelled from the spec: \<^verbatim>\<open>prec_to_dps\<close> and \<^verbatim>\<open>dps_to_prec\<close> are imported from
  the kernel. The spec gives them up to rounding, as a fixed guard-bit formula with the
  ratio \<open>log2 10\<close>. This instance takes the ratio as the decimal 3.3219280948873626,
  rounds to the nearest integer, keeps one guard digit and never goes below 1; it maps
  the pair of \<^verbatim>\<open>default\<close>, 53 bits and 15 digits, to each other.
\<close>

definition py_round :: "rat \<Rightarrow> int" where
  "py_round x = (if 0 \<le> x then \<lfloor>x + 1 / 2\<rfloor> else - \<lfloor>- x + 1 / 2\<rfloor>)"

definition log2_10 :: rat where
  "log2_10 = 33219280948873626 / 10000000000000000"

definition libmp_prec_to_dps :: "int \<Rightarrow> int" where
  "libmp_prec_to_dps n = max 1 (py_round (of_int n / log2_10) - 1)"

definition libmp_dps_to_prec :: "int \<Rightarrow> int" where
  "libmp_dps_to_prec n = max 1 (py_round (of_int (n + 1) * log2_10))"

subsection \<open>PrecisionManager\<close>

text \<open>
  A manager object has the three fields set by \<^verbatim>\<open>__init__\<close> and the attribute
  \<^verbatim>\<open>origp\<close>, which \<^verbatim>\<open>__enter__\<close> writes. Managers are objects that a program can
  bind to a name and use again, so they live in a store, indexed by address, next to the
  context.
\<close>

record manager =
  precfun :: "(int \<Rightarrow> int) option"
  dpsfun :: "(int \<Rightarrow> int) option"
  normalize_output :: bool
  origp :: "int option"

definition PrecisionManager ::
  "(int \<Rightarrow> int) option \<Rightarrow> (int \<Rightarrow> int) option \<Rightarrow> bool \<Rightarrow> manager" where
  "PrecisionManager pf df no =
     \<lparr>precfun = pf, dpsfun = df, normalize_output = no, origp = None\<rparr>"

definition extraprec :: "int \<Rightarrow> bool \<Rightarrow> manager" where
  "extraprec n no = PrecisionManager (Some (\<lambda>p. p + n)) None no"

definition extradps :: "int \<Rightarrow> bool \<Rightarrow> manager" where
  "extradps n no = PrecisionManager None (Some (\<lambda>d. d + n)) no"

definition workprec :: "int \<Rightarrow> bool \<Rightarrow> manager" where
  "workprec n no = PrecisionManager (Some (\<lambda>p. n)) None no"

definition workdps :: "int \<Rightarrow> bool \<Rightarrow> manager" where
  "workdps n no = PrecisionManager None (Some (\<lambda>d. n)) no"

record world =
  w_ctx :: ctx
  w_mgr :: "nat \<Rightarrow> manager"

text \<open>A unit of work: it may raise or return, and it may change the state.\<close>

type_synonym 'a work = "world \<Rightarrow> (error + 'a) \<times> world"

text \<open>
  The override shared by \<^verbatim>\<open>__enter__\<close> and the decorator:
  \<^verbatim>\<open>if self.precfun: ctx.prec = ... else: ctx.dps = self.dpsfun(ctx.dps)\<close>.
\<close>

definition override :: "kernel \<Rightarrow> manager \<Rightarrow> ctx \<Rightarrow> error + ctx" where
  "override K m c =
     (case precfun m of
        Some f \<Rightarrow> Inr (set_prec K (f (c_prec c)) c)
      | None \<Rightarrow>
          (case dpsfun m of
             Some g \<Rightarrow> Inr (set_dps K (g (c_dps c)) c)
           | None \<Rightarrow> Inl (TypeError ''NoneType object is not callable'')))"

definition pm_enter :: "kernel \<Rightarrow> nat \<Rightarrow> unit work" where
  "pm_enter K a w =
     (let m = (w_mgr w a)\<lparr>origp := Some (c_prec (w_ctx w))\<rparr>;
          w1 = w\<lparr>w_mgr := (w_mgr w)(a := m)\<rparr>
      in case override K m (w_ctx w) of
           Inl e \<Rightarrow> (Inl e, w1)
         | Inr c \<Rightarrow> (Inr (), w1\<lparr>w_ctx := c\<rparr>))"

definition pm_exit :: "kernel \<Rightarrow> nat \<Rightarrow> bool work" where
  "pm_exit K a w =
     (case origp (w_mgr w a) of
        None \<Rightarrow> (Inl (AttributeError ''origp''), w)
      | Some p \<Rightarrow> (Inr False, w\<lparr>w_ctx := set_prec K p (w_ctx w)\<rparr>))"

text \<open>
  The statement \<^verbatim>\<open>with manager: body\<close>. An exception of \<^verbatim>\<open>__enter__\<close> leaves
  without running \<^verbatim>\<open>__exit__\<close>; \<^verbatim>\<open>__exit__\<close> runs after the body whether it raised or
  not and, returning False, lets the body's exception pass.
\<close>

definition with_stmt :: "kernel \<Rightarrow> nat \<Rightarrow> 'a work \<Rightarrow> 'a work" where
  "with_stmt K a body w =
     (case pm_enter K a w of
        (Inl e, w1) \<Rightarrow> (Inl e, w1)
      | (Inr u, w1) \<Rightarrow>
          (case body w1 of (r, w2) \<Rightarrow>
             (case pm_exit K a w2 of
                (Inl e, w3) \<Rightarrow> (Inl e, w3)
              | (Inr b, w3) \<Rightarrow> (r, w3))))"

text \<open>
  The decorated function \<^verbatim>\<open>g\<close> of \<^verbatim>\<open>__call__\<close>. It keeps the precision in the local
  \<^verbatim>\<open>orig\<close> and restores it in \<^verbatim>\<open>finally\<close>. The unary plus applied to the result
  under \<^verbatim>\<open>normalize_output\<close> is the parameter \<open>pos\<close>; it runs inside \<^verbatim>\<open>try\<close>, at the
  precision of the scope.
\<close>

definition pm_call :: "kernel \<Rightarrow> nat \<Rightarrow> 'a work \<Rightarrow> (ctx \<Rightarrow> 'a \<Rightarrow> error + 'a) \<Rightarrow> 'a work" where
  "pm_call K a f pos w =
     (let orig = c_prec (w_ctx w);
          m = w_mgr w a
      in case override K m (w_ctx w) of
           Inl e \<Rightarrow> (Inl e, w\<lparr>w_ctx := set_prec K orig (w_ctx w)\<rparr>)
         | Inr c \<Rightarrow>
             (case f (w\<lparr>w_ctx := c\<rparr>) of (r, w2) \<Rightarrow>
                (if normalize_output m
                 then (case r of Inl e \<Rightarrow> Inl e | Inr v \<Rightarrow> pos (w_ctx w2) v)
                 else r,
                 w2\<lparr>w_ctx := set_prec K orig (w_ctx w2)\<rparr>)))"

subsection \<open>Constructors of the tower classes\<close>

text \<open>
  The keyword arguments \<^verbatim>\<open>prec\<close>, \<^verbatim>\<open>dps\<close> and \<^verbatim>\<open>rounding\<close> override the
  context's pair for one call; \<^verbatim>\<open>dps\<close> wins over \<^verbatim>\<open>prec\<close>.
\<close>

record call_kwargs =
  kw_prec :: "int option"
  kw_dps :: "int option"
  kw_rounding :: "rounding option"

definition no_kwargs :: call_kwargs where
  "no_kwargs = \<lparr>kw_prec = None, kw_dps = None, kw_rounding = None\<rparr>"

definition call_prec :: "kernel \<Rightarrow> ctx \<Rightarrow> call_kwargs \<Rightarrow> int" where
  "call_prec K c kw =
     (case kw_dps kw of
        Some d \<Rightarrow> dps_to_prec K d
      | None \<Rightarrow> (case kw_prec kw of Some p \<Rightarrow> p | None \<Rightarrow> fst (prec_rounding c)))"

definition call_rounding :: "ctx \<Rightarrow> call_kwargs \<Rightarrow> rounding" where
  "call_rounding c kw =
     (case kw_rounding kw of Some r \<Rightarrow> r | None \<Rightarrow> snd (prec_rounding c))"

definition mpf_convert_arg :: "kernel \<Rightarrow> pyval \<Rightarrow> int \<Rightarrow> rounding \<Rightarrow> error + mpf" where
  "mpf_convert_arg K x prec rnd =
     (case x of
        PyInt n \<Rightarrow> Inr (from_int n)
      | PyFloat f \<Rightarrow> Inr (from_float f)
      | PyStr s \<Rightarrow> from_str K s prec rnd
      | Tower (Constant f) \<Rightarrow> Inr (f prec rnd)
      | Tower (Mpf v) \<Rightarrow> Inr v
      | _ \<Rightarrow> Inl (TypeError ''cannot create mpf from ''))"

text \<open>\<^verbatim>\<open>_mpf.__new__(cls, val, **kwargs)\<close>, as the raw value of the new instance.\<close>

definition mpf_new :: "kernel \<Rightarrow> ctx \<Rightarrow> pyval \<Rightarrow> call_kwargs \<Rightarrow> error + mpf" where
  "mpf_new K c val kw =
     (let prec = call_prec K c kw; rnd = call_rounding c kw
      in case val of
           Tower (Mpf v) \<Rightarrow>
             (case v of (sign, man, ex, bc) \<Rightarrow>
                if man = 0 \<and> ex \<noteq> 0 then Inr v
                else Inr (normalize_mpf sign man ex bc prec rnd))
         | _ \<Rightarrow>
             (case mpf_convert_arg K val prec rnd of
                Inl e \<Rightarrow> Inl e
              | Inr v \<Rightarrow> Inr (mpf_pos v prec rnd)))"

text \<open>\<^verbatim>\<open>_mpc.__new__(cls, real, imag)\<close>.\<close>

definition mpc_new :: "kernel \<Rightarrow> ctx \<Rightarrow> pyval \<Rightarrow> pyval \<Rightarrow> error + tower" where
  "mpc_new K c re0 im0 =
     (let parts =
            (case re0 of
               PyComplex a b \<Rightarrow> (PyFloat a, PyFloat b)
             | Tower (Mpc a b) \<Rightarrow> (Tower (Mpf a), Tower (Mpf b))
             | _ \<Rightarrow> (re0, im0))
      in case mpf_new K c (fst parts) no_kwargs of
           Inl e \<Rightarrow> Inl e
         | Inr re \<Rightarrow>
             (case mpf_new K c (snd parts) no_kwargs of
                Inl e \<Rightarrow> Inl e
              | Inr im \<Rightarrow> Inr (Mpc re im)))"

text \<open>
  \<^verbatim>\<open>_mpi.__new__(cls, a, b=None)\<close>. The comparison \<^verbatim>\<open>a <= b\<close> of two reals is
  the kernel's \<^verbatim>\<open>mpf_le\<close> on their raw values.
\<close>

definition mpi_new :: "kernel \<Rightarrow> ctx \<Rightarrow> pyval \<Rightarrow> pyval \<Rightarrow> error + tower" where
  "mpi_new K c a b =
     (case a of
        Tower (Mpi lo hi) \<Rightarrow> Inr (Mpi lo hi)
      | _ \<Rightarrow>
          (let b1 = (case b of PyNone \<Rightarrow> a | _ \<Rightarrow> b)
           in case mpf_new K c a (no_kwargs\<lparr>kw_rounding := Some round_floor\<rparr>) of
                Inl e \<Rightarrow> Inl e
              | Inr lo \<Rightarrow>
                  (case mpf_new K c b1 (no_kwargs\<lparr>kw_rounding := Some round_ceiling\<rparr>) of
                     Inl e \<Rightarrow> Inl e
                   | Inr hi \<Rightarrow>
                       (let ends = (if lo = fnan \<or> hi = fnan then (fninf, finf) else (lo, hi))
                        in if mpf_le (fst ends) (snd ends) then Inr (make_mpi ends)
                           else Inl (AssertionError ''endpoints must be properly ordered'')))))"

subsection \<open>def_mp_function\<close>

type_synonym mpf_fun = "mpf \<Rightarrow> int \<Rightarrow> rounding \<Rightarrow> error + mpf"
type_synonym mpc_fun = "mpf \<times> mpf \<Rightarrow> int \<Rightarrow> rounding \<Rightarrow> error + mpf \<times> mpf"
type_synonym mpi_fun = "mpf \<times> mpf \<Rightarrow> int \<Rightarrow> error + mpf \<times> mpf"

text \<open>
  The real branch of the function \<^verbatim>\<open>f\<close> that \<^verbatim>\<open>def_mp_function\<close> returns: only
  \<^verbatim>\<open>ComplexResult\<close> is caught. Calling an absent \<^verbatim>\<open>mpc_f\<close> (the default
  \<^verbatim>\<open>None\<close>) is a \<^verbatim>\<open>TypeError\<close>.
\<close>

definition call_mpc_f :: "mpc_fun option \<Rightarrow> mpf \<times> mpf \<Rightarrow> int \<Rightarrow> rounding \<Rightarrow> error + tower" where
  "call_mpc_f mpc_f v prec rnd =
     (case mpc_f of
        None \<Rightarrow> Inl (TypeError ''NoneType object is not callable'')
      | Some g \<Rightarrow> (case g v prec rnd of Inl e \<Rightarrow> Inl e | Inr r \<Rightarrow> Inr (make_mpc r)))"

definition mp_function_real ::
  "ctx \<Rightarrow> mpf_fun \<Rightarrow> mpc_fun option \<Rightarrow> mpf \<Rightarrow> int \<Rightarrow> rounding \<Rightarrow> error + tower" where
  "mp_function_real c mpf_f mpc_f v prec rnd =
     (case mpf_f v prec rnd of
        Inr r \<Rightarrow> Inr (make_mpf r)
      | Inl e \<Rightarrow>
          if e = ComplexResult then
            (if trap_complex c then Inl e
             else call_mpc_f mpc_f (v, fzero) prec rnd)
          else Inl e)"

definition def_mp_function ::
  "kernel \<Rightarrow> ctx \<Rightarrow> mpf_fun \<Rightarrow> mpc_fun option \<Rightarrow> mpi_fun option
   \<Rightarrow> pyval \<Rightarrow> call_kwargs \<Rightarrow> error + tower" where
  "def_mp_function K c mpf_f mpc_f mpi_f x kw =
     (case (case x of Tower t \<Rightarrow> Inr t | _ \<Rightarrow> convert K c x True) of
        Inl e \<Rightarrow> Inl e
      | Inr t \<Rightarrow>
          (let prec = call_prec K c kw; rnd = call_rounding c kw
           in case t of
                Mpf v \<Rightarrow> mp_function_real c mpf_f mpc_f v prec rnd
              | Constant f \<Rightarrow>
                  mp_function_real c mpf_f mpc_f
                    (f (fst (prec_rounding c)) (snd (prec_rounding c))) prec rnd
              | Mpc re im \<Rightarrow> call_mpc_f mpc_f (re, im) prec rnd
              | Mpi a b \<Rightarrow>
                  (case mpi_f of
                     Some h \<Rightarrow>
                       (case h (a, b) prec of Inl e \<Rightarrow> Inl e | Inr r \<Rightarrow> Inr (make_mpi r))
                   | None \<Rightarrow> Inl (NotImplementedError []))))"

text \<open>\<^verbatim>\<open>ctx.sqrt\<close> and \<^verbatim>\<open>ctx.j\<close>, as \<^verbatim>\<open>init_builtins\<close> defines them.\<close>

definition ctx_sqrt :: "kernel \<Rightarrow> ctx \<Rightarrow> pyval \<Rightarrow> call_kwargs \<Rightarrow> error + tower" where
  "ctx_sqrt K c = def_mp_function K c (mpf_sqrt K) (Some (mpc_sqrt K)) (Some (mpi_sqrt K))"

definition ctx_j :: tower where
  "ctx_j = make_mpc (fzero, fone)"

subsection \<open>nint_distance\<close>

text \<open>
  The tail of \<^verbatim>\<open>nint_distance\<close>, which works on the real part \<^verbatim>\<open>re\<close> and the
  distance \<^verbatim>\<open>im_dist\<close> of the imaginary part. Shifts by \<^verbatim>\<open>bc\<close> are shifts by a
  positive count: a raw value with a non-zero significand has \<open>bc > 0\<close>.
\<close>

definition nint_distance_parts :: "mpf \<Rightarrow> eint \<Rightarrow> error + int \<times> eint" where
  "nint_distance_parts re im_dist =
     (case re of (sign, man0, ex, bc) \<Rightarrow>
        let shift = ex + bc;
            man = (if sign \<noteq> 0 then - man0 else man0)
        in if shift < - 1 then Inr (0, emax (Fin shift) im_dist)
           else if man \<noteq> 0 then
             (if ex \<ge> 0 then Inr (man * 2 ^ nat ex, emax MInf im_dist)
              else
                let xfixed = (if shift \<ge> 0 then man * 2 ^ nat shift
                              else man div 2 ^ nat (- shift));
                    n1 = xfixed div 2 ^ nat bc;
                    n2 = - ((- xfixed) div 2 ^ nat bc);
                    dist1 = \<bar>xfixed - n1 * 2 ^ nat bc\<bar>;
                    dist2 = \<bar>xfixed - n2 * 2 ^ nat bc\<bar>;
                    re_dist = (if dist1 < dist2 then dist1 else dist2);
                    n = (if dist1 < dist2 then n1 else n2)
                in Inr (n, emax (if re_dist \<noteq> 0 then Fin (bitcount re_dist - bc) else MInf)
                             im_dist))
           else if re = fzero then Inr (0, emax MInf im_dist)
           else Inl (ValueError ''requires a finite number''))"

definition nint_distance_tower :: "ctx \<Rightarrow> tower \<Rightarrow> error + int \<times> eint" where
  "nint_distance_tower c t =
     (case t of
        Mpf re \<Rightarrow> nint_distance_parts re MInf
      | Constant f \<Rightarrow>
          nint_distance_parts (f (fst (prec_rounding c)) (snd (prec_rounding c))) MInf
      | Mpc re im \<Rightarrow>
          (case im of (isign, iman, iexp, ibc) \<Rightarrow>
             if iman \<noteq> 0 then nint_distance_parts re (Fin (iexp + ibc))
             else if im = fzero then nint_distance_parts re MInf
             else Inl (ValueError ''requires a finite number''))
      | Mpi a b \<Rightarrow> Inl (TypeError ''requires an mpf/mpc''))"

definition nint_distance :: "kernel \<Rightarrow> ctx \<Rightarrow> pyval \<Rightarrow> error + int \<times> eint" where
  "nint_distance K c x =
     (case x of
        Tower t \<Rightarrow> nint_distance_tower c t
      | PyInt n \<Rightarrow> Inr (n, MInf)
      | Mpq p q \<Rightarrow>
          if q = 0 then Inl (ZeroDivisionError ''integer division or modulo by zero'')
          else
            let n = p div q; r = p mod q
            in if 2 * r \<ge> q
               then Inr (n + 1, Fin (bitcount \<bar>p - (n + 1) * q\<bar> - bitcount q))
               else if r = 0 then Inr (n, MInf)
               else Inr (n, Fin (bitcount \<bar>p - n * q\<bar> - bitcount q))
      | _ \<Rightarrow>
          (case convert K c x True of
             Inl e \<Rightarrow> Inl e
           | Inr t \<Rightarrow> nint_distance_tower c t))"

subsection \<open>hypsum\<close>

text \<open>
  \<^verbatim>\<open>c <= cc\<close>: the integer order on two Python integers, and the collaborator
  \<^verbatim>\<open>cmp_other\<close> on any other pair of operands.
\<close>

definition py_le :: "kernel \<Rightarrow> pyval \<Rightarrow> pyval \<Rightarrow> error + bool" where
  "py_le K x y =
     (case x of
        PyInt a \<Rightarrow> (case y of PyInt b \<Rightarrow> Inr (a \<le> b) | _ \<Rightarrow> cmp_other K x y)
      | _ \<Rightarrow> cmp_other K x y)"

text \<open>
  The inner loop over the numerator side \<^verbatim>\<open>coeffs[:p]\<close>, which sets \<^verbatim>\<open>ok\<close>:
  \<^verbatim>\<open>if flags[ii] == 'Z' and cc <= 0 and c <= cc: ok = True\<close>.
\<close>

fun pole_removable ::
  "kernel \<Rightarrow> string \<Rightarrow> pyval \<Rightarrow> nat \<Rightarrow> pyval list \<Rightarrow> bool \<Rightarrow> error + bool" where
  "pole_removable K flags c ii [] ok = Inr ok"
| "pole_removable K flags c ii (cc # ccs) ok =
     (if ii \<ge> length flags then Inl IndexError
      else if flags ! ii = CHR ''Z'' then
        (case py_le K cc (PyInt 0) of
           Inl e \<Rightarrow> Inl e
         | Inr b1 \<Rightarrow>
             if b1 then
               (case py_le K c cc of
                  Inl e \<Rightarrow> Inl e
                | Inr b2 \<Rightarrow> pole_removable K flags c (Suc ii) ccs (ok \<or> b2))
             else pole_removable K flags c (Suc ii) ccs ok)
      else pole_removable K flags c (Suc ii) ccs ok)"

text \<open>The three variables that the loop over the coefficients builds up.\<close>

record jumps =
  magnitude_check :: "(int \<times> eint) list"
  max_total_jump :: eint
  extraprec0 :: eint

definition init_jumps :: jumps where
  "init_jumps = \<lparr>magnitude_check = [], max_total_jump = Fin 0, extraprec0 = Fin 50\<rparr>"

fun bump :: "(int \<times> eint) list \<Rightarrow> int \<Rightarrow> eint \<Rightarrow> (int \<times> eint) list" where
  "bump [] n d = [(n, d)]"
| "bump ((k, v) # m) n d = (if k = n then (k, eadd v d) # m else (k, v) # bump m n d)"

definition note_jump :: "nat \<Rightarrow> int \<Rightarrow> nat \<Rightarrow> int \<Rightarrow> eint \<Rightarrow> jumps \<Rightarrow> jumps" where
  "note_jump p prec i n d J =
     (let J1 = (if i \<ge> p \<and> n \<ge> 0 \<and> elt (Fin 4) d
                then J\<lparr>magnitude_check := bump (magnitude_check J) n d,
                       extraprec0 := emax (extraprec0 J) (eadd d (Fin (60 - prec)))\<rparr>
                else J)
      in J1\<lparr>max_total_jump := eadd (max_total_jump J1) (eabs d)\<rparr>)"

text \<open>
  The loop \<^verbatim>\<open>for i, c in enumerate(coeffs)\<close>, from index \<open>i\<close> on, over the remaining
  coefficients.
\<close>

fun scan_coeffs ::
  "kernel \<Rightarrow> ctx \<Rightarrow> nat \<Rightarrow> string \<Rightarrow> pyval list \<Rightarrow> int \<Rightarrow> nat \<Rightarrow> pyval list \<Rightarrow> jumps
   \<Rightarrow> error + jumps" where
  "scan_coeffs K c p flags coeffs prec i [] J = Inr J"
| "scan_coeffs K c p flags coeffs prec i (x # xs) J =
     (if i \<ge> length flags then Inl IndexError
      else if flags ! i = CHR ''Z'' then
        (if i \<ge> p then
           (case py_le K x (PyInt 0) of
              Inl e \<Rightarrow> Inl e
            | Inr b \<Rightarrow>
                if b then
                  (case pole_removable K flags x 0 (take p coeffs) False of
                     Inl e \<Rightarrow> Inl e
                   | Inr ok \<Rightarrow>
                       if ok then scan_coeffs K c p flags coeffs prec (Suc i) xs J
                       else Inl (ZeroDivisionError ''pole in hypergeometric series''))
                else scan_coeffs K c p flags coeffs prec (Suc i) xs J)
         else scan_coeffs K c p flags coeffs prec (Suc i) xs J)
      else
        (case nint_distance K c x of
           Inl e \<Rightarrow> Inl e
         | Inr nd \<Rightarrow>
             scan_coeffs K c p flags coeffs prec (Suc i) xs
               (note_jump p prec i (- fst nd) (eneg (snd nd)) J)))"

text \<open>
  The local variables that stay fixed while the \<^verbatim>\<open>while\<close> loop runs.
\<close>

record frame =
  f_summator :: summator
  f_coeffs :: "pyval list"
  f_v :: kval
  f_prec :: int
  f_maxprec :: int
  f_magnitude_check :: "(int \<times> eint) list"
  f_max_total_jump :: eint
  f_accurate_small :: bool
  f_kwargs :: hyp_kwargs

text \<open>
  \<^verbatim>\<open>ctx.zero\<close>, and the result for the summed value \<^verbatim>\<open>zv\<close>:
  \<^verbatim>\<open>make_mpc(zv)\<close> when \<^verbatim>\<open>have_complex\<close>, \<^verbatim>\<open>make_mpf(zv)\<close> otherwise.
\<close>

definition ctx_zero :: tower where
  "ctx_zero = make_mpf fzero"

fun sum_result :: "kval \<Rightarrow> tower" where
  "sum_result (KReal x) = make_mpf x"
| "sum_result (KComplex re im) = make_mpc (re, im)"

text \<open>
  The pieces of one round of the \<^verbatim>\<open>while\<close> loop, at the extra precision \<open>xprec\<close>
  (the variable \<^verbatim>\<open>extraprec\<close>): the call of the summation kernel at the working
  precision \<^verbatim>\<open>wp = prec + extraprec\<close> with a fresh \<^verbatim>\<open>mag_dict\<close>; the flag
  \<^verbatim>\<open>jumps_resolved\<close>; the flag \<^verbatim>\<open>accurate\<close>; and the test
  \<^verbatim>\<open>cancel > zeroprec\<close> behind \<^verbatim>\<open>zeroprec is not None\<close>.
\<close>

definition unresolved :: "int \<Rightarrow> int option \<Rightarrow> bool" where
  "unresolved prec n = (case n of None \<Rightarrow> True | Some k \<Rightarrow> k < prec)"

definition run_summator :: "frame \<Rightarrow> int \<Rightarrow> int \<Rightarrow> error + (kval \<times> int \<times> mag_dict)" where
  "run_summator F xprec epsshift =
     f_summator F (f_coeffs F) (f_v F) (f_prec F) (f_prec F + xprec) epsshift
       (map (\<lambda>nd. (fst nd, None)) (f_magnitude_check F)) (f_kwargs F)"

definition jumps_resolved :: "frame \<Rightarrow> int \<Rightarrow> mag_dict \<Rightarrow> bool" where
  "jumps_resolved F xprec md =
     (\<not> (elt (Fin xprec) (f_max_total_jump F)
         \<and> list_ex (unresolved (f_prec F)) (map snd md)))"

definition accurate :: "frame \<Rightarrow> int \<Rightarrow> int \<Rightarrow> bool" where
  "accurate F xprec cancel = (cancel < xprec - 25 - 5 \<or> \<not> f_accurate_small F)"

definition zero_beyond :: "frame \<Rightarrow> int \<Rightarrow> bool" where
  "zero_beyond F cancel =
     (case kw_zeroprec (f_kwargs F) of
        None \<Rightarrow> False
      | Some zeroprec \<Rightarrow> cancel > zeroprec)"

text \<open>
  The \<^verbatim>\<open>while 1\<close> loop. It is entered with an integer \<^verbatim>\<open>extraprec\<close>. The last
  argument records the working precisions at which the summation kernel has been called.
\<close>

partial_function (option) hypsum_loop ::
  "kernel \<Rightarrow> ctx \<Rightarrow> frame \<Rightarrow> int \<Rightarrow> int \<Rightarrow> int list \<Rightarrow> ((error + tower) \<times> int list) option" where
  "hypsum_loop K c F xprec epsshift calls =
     (if xprec > f_maxprec F then
        Some (Inl (HypsumValueError (f_prec F) (f_prec F + xprec)), calls)
      else
        case run_summator F xprec epsshift of
          Inl e \<Rightarrow> Some (Inl e, calls @ [f_prec F + xprec])
        | Inr res \<Rightarrow>
            if jumps_resolved F xprec (snd (snd res))
               \<and> accurate F xprec (- fst (snd res))
            then Some (Inr (sum_result (fst res)), calls @ [f_prec F + xprec])
            else if jumps_resolved F xprec (snd (snd res))
                    \<and> zero_beyond F (- fst (snd res))
            then
              Some (if have_complex (fst res) then mpc_new K c (PyInt 0) (PyInt 0)
                    else Inr ctx_zero,
                    calls @ [f_prec F + xprec])
            else hypsum_loop K c F (xprec * 2 + 5) (epsshift + 5)
                   (calls @ [f_prec F + xprec]))"

text \<open>
  The head of \<^verbatim>\<open>hypsum\<close>: the key from the kind of \<open>z\<close> (no key is bound when \<open>z\<close>
  is neither real nor complex), the summation kernel for the key, the ceiling
  \<^verbatim>\<open>maxprec\<close> (the keyword argument, or \<^verbatim>\<open>_default_hyper_maxprec(prec)\<close>), the
  loop over the coefficients, and the \<^verbatim>\<open>while\<close> loop. When the loop over the
  coefficients leaves an infinite \<^verbatim>\<open>extraprec\<close> (the negated \<^verbatim>\<open>ctx.ninf\<close> of an
  exact integer), the first test of the \<^verbatim>\<open>while\<close> loop is true, and building the
  message \<^verbatim>\<open>_hypsum_msg % (prec, prec+extraprec)\<close> fails: \<^verbatim>\<open>%i\<close> asks
  \<^verbatim>\<open>_mpf.__int__\<close>, that is \<^verbatim>\<open>int(to_int(s._mpf_))\<close>, for an integer, and an
  infinity has none. The error of that conversion is \<open>FormatError\<close>; it carries no
  precision.
\<close>

definition z_key :: "ctx \<Rightarrow> pyval \<Rightarrow> (char \<times> kval) option" where
  "z_key c z =
     (case z of
        Tower (Mpf v) \<Rightarrow> Some (CHR ''R'', KReal v)
      | Tower (Constant f) \<Rightarrow>
          Some (CHR ''R'', KReal (f (fst (prec_rounding c)) (snd (prec_rounding c))))
      | Tower (Mpc re im) \<Rightarrow> Some (CHR ''C'', KComplex re im)
      | _ \<Rightarrow> None)"

definition hypsum_frame ::
  "kernel \<Rightarrow> ctx \<Rightarrow> nat \<Rightarrow> nat \<Rightarrow> string \<Rightarrow> pyval list \<Rightarrow> char \<times> kval \<Rightarrow> bool
   \<Rightarrow> hyp_kwargs \<Rightarrow> jumps \<Rightarrow> frame" where
  "hypsum_frame K c p q flags coeffs kv accurate_small kwargs J =
     \<lparr>f_summator = make_hyp_summator K (p, q, flags, fst kv),
      f_coeffs = coeffs, f_v = snd kv, f_prec = c_prec c,
      f_maxprec = (case kw_maxprec kwargs of
                     Some m \<Rightarrow> m
                   | None \<Rightarrow> default_hyper_maxprec K (c_prec c)),
      f_magnitude_check = magnitude_check J,
      f_max_total_jump = max_total_jump J,
      f_accurate_small = accurate_small, f_kwargs = kwargs\<rparr>"

definition hypsum ::
  "kernel \<Rightarrow> ctx \<Rightarrow> nat \<Rightarrow> nat \<Rightarrow> string \<Rightarrow> pyval list \<Rightarrow> pyval \<Rightarrow> bool \<Rightarrow> hyp_kwargs
   \<Rightarrow> ((error + tower) \<times> int list) option" where
  "hypsum K c p q flags coeffs z accurate_small kwargs =
     (case z_key c z of
        None \<Rightarrow> Some (Inl (UnboundLocalError ''key''), [])
      | Some kv \<Rightarrow>
          (case scan_coeffs K c p flags coeffs (c_prec c) 0 coeffs init_jumps of
             Inl e \<Rightarrow> Some (Inl e, [])
           | Inr J \<Rightarrow>
               (case extraprec0 J of
                  Fin e \<Rightarrow>
                    hypsum_loop K c
                      (hypsum_frame K c p q flags coeffs kv accurate_small kwargs J) e 25 []
                | _ \<Rightarrow> Some (Inl FormatError, []))))"

subsection \<open>An instance of the collaborators\<close>

text \<open>
  An instance of the collaborators, used to evaluate the definitions at concrete inputs.
  It parses strings of decimal digits and re-raises on every other string; converts
  between bits and digits as above; knows no ordering outside the integers; has a linear
  default ceiling; its summation kernel returns its argument as the sum, marks every
  index of the dictionary as resolved at the working precision, and reports a
  cancellation equal to the extra precision; its square roots answer at the arguments
  0, 1 and -1 only.
\<close>

definition digit_of :: "char \<Rightarrow> int option" where
  "digit_of ch =
     (if ch = CHR ''0'' then Some 0 else if ch = CHR ''1'' then Some 1
      else if ch = CHR ''2'' then Some 2 else if ch = CHR ''3'' then Some 3
      else if ch = CHR ''4'' then Some 4 else if ch = CHR ''5'' then Some 5
      else if ch = CHR ''6'' then Some 6 else if ch = CHR ''7'' then Some 7
      else if ch = CHR ''8'' then Some 8 else if ch = CHR ''9'' then Some 9
      else None)"

fun digits_value :: "string \<Rightarrow> int \<Rightarrow> int option" where
  "digits_value [] acc = Some acc"
| "digits_value (ch # cs) acc =
     (case digit_of ch of None \<Rightarrow> None | Some d \<Rightarrow> digits_value cs (10 * acc + d))"

definition example_from_str :: "string \<Rightarrow> int \<Rightarrow> rounding \<Rightarrow> error + mpf" where
  "example_from_str s prec rnd =
     (if s = [] then Inl (ValueError ''could not convert string'')
      else case digits_value s 0 of
             None \<Rightarrow> Inl (ValueError ''could not convert string'')
           | Some n \<Rightarrow> Inr (mpf_pos (from_int n) prec rnd))"

definition example_summator :: summator where
  "example_summator coeffs v prec wp epsshift mag_dict kwargs =
     Inr (v, - (wp - prec), map (\<lambda>nd. (fst nd, Some wp)) mag_dict)"

definition example_mpf_sqrt :: "mpf \<Rightarrow> int \<Rightarrow> rounding \<Rightarrow> error + mpf" where
  "example_mpf_sqrt v prec rnd =
     (if v = fzero \<or> v = fone then Inr v
      else if v = fnone then Inl ComplexResult
      else Inl (KernelError ''not covered''))"

definition example_mpc_sqrt :: "mpf \<times> mpf \<Rightarrow> int \<Rightarrow> rounding \<Rightarrow> error + mpf \<times> mpf" where
  "example_mpc_sqrt v prec rnd =
     (if v = (fnone, fzero) then Inr (fzero, fone)
      else if v = (fzero, fzero) \<or> v = (fone, fzero) then Inr v
      else Inl (KernelError ''not covered''))"

definition example_kernel :: kernel where
  "example_kernel =
     \<lparr>from_str = example_from_str,
      convert_str_except = (\<lambda>s prec rnd e. Inl e),
      prec_to_dps = libmp_prec_to_dps,
      dps_to_prec = libmp_dps_to_prec,
      cmp_other = (\<lambda>x y. Inl (TypeError ''no ordering'')),
      default_hyper_maxprec = (\<lambda>prec. 6 * prec),
      make_hyp_summator = (\<lambda>key. example_summator),
      mpf_sqrt = example_mpf_sqrt,
      mpc_sqrt = example_mpc_sqrt,
      mpi_sqrt = (\<lambda>v prec. Inl (KernelError ''not covered''))\<rparr>"

text \<open>
  What C10 asks of \<^verbatim>\<open>isnpint\<close> on an exact rational \<open>p/q\<close>, in the claim's words:
  \<open>q\<close> divides \<open>p\<close> and \<open>p \<le> 0\<close>.
\<close>

definition mpq_is_npint :: "int \<Rightarrow> int \<Rightarrow> bool" where
  "mpq_is_npint p q = (q dvd p \<and> p \<le> 0)"

subsection \<open>Bodies and states for the precision scopes\<close>

text \<open>
  A unit of work keeps the attribute \<^verbatim>\<open>origp\<close> of the manager at address \<open>a\<close> when it
  never writes it, that is, when it does not enter that same manager object again.
\<close>

definition keeps_origp :: "nat \<Rightarrow> 'a work \<Rightarrow> bool" where
  "keeps_origp a body = (\<forall>w. origp (w_mgr (snd (body w)) a) = origp (w_mgr w a))"

text \<open>\<^verbatim>\<open>pass\<close>.\<close>

definition skip :: "unit work" where
  "skip w = (Inr (), w)"

text \<open>
  The state after \<^verbatim>\<open>__init__\<close> in which every address holds the manager
  \<^verbatim>\<open>workprec(100)\<close>.
\<close>

definition reentry_world :: world where
  "reentry_world = \<lparr>w_ctx = init_ctx, w_mgr = (\<lambda>a. workprec 100 False)\<rparr>"

subsection \<open>Reading values exactly\<close>

text \<open>
  \<^verbatim>\<open>x._mpf_\<close> of a real: the stored value of an \<^verbatim>\<open>mpf\<close>, and for a constant the
  property that evaluates its function at the context's precision and rounding.
\<close>

definition real_payload :: "ctx \<Rightarrow> tower \<Rightarrow> mpf option" where
  "real_payload c t =
     (case t of
        Mpf v \<Rightarrow> Some v
      | Constant f \<Rightarrow> Some (f (fst (prec_rounding c)) (snd (prec_rounding c)))
      | _ \<Rightarrow> None)"

text \<open>
  What C7 calls lossless, in the claim's words: the returned tower value is exactly equal
  to the input value. Values are read as pairs of rationals (real and imaginary part).
\<close>

definition tower_exact :: "tower \<Rightarrow> (rat \<times> rat) option" where
  "tower_exact t =
     (case t of
        Mpf v \<Rightarrow> if is_special v then None else Some (mpf_value v, 0)
      | Mpc re im \<Rightarrow>
          if is_special re \<or> is_special im then None
          else Some (mpf_value re, mpf_value im)
      | _ \<Rightarrow> None)"

definition float_exact :: "pyfloat \<Rightarrow> rat option" where
  "float_exact f = (case f of Float m e \<Rightarrow> Some (of_int m * pow2 e) | _ \<Rightarrow> None)"

definition py_exact :: "pyval \<Rightarrow> (rat \<times> rat) option" where
  "py_exact x =
     (case x of
        PyInt n \<Rightarrow> Some (of_int n, 0)
      | PyFloat f \<Rightarrow> (case float_exact f of None \<Rightarrow> None | Some r \<Rightarrow> Some (r, 0))
      | PyComplex f g \<Rightarrow>
          (case float_exact f of
             None \<Rightarrow> None
           | Some r \<Rightarrow> (case float_exact g of None \<Rightarrow> None | Some i \<Rightarrow> Some (r, i)))
      | Mpq p q \<Rightarrow> if q = 0 then None else Some (of_int p / of_int q, 0)
      | _ \<Rightarrow> None)"

definition converts_exactly :: "kernel \<Rightarrow> ctx \<Rightarrow> pyval \<Rightarrow> bool" where
  "converts_exactly K c x =
     (case convert K c x True of
        Inl e \<Rightarrow> False
      | Inr t \<Rightarrow> py_exact x \<noteq> None \<and> tower_exact t = py_exact x)"

text \<open>The context after \<^verbatim>\<open>mp.prec = 2\<close>.\<close>

definition two_bit_ctx :: ctx where
  "two_bit_ctx = set_prec example_kernel 2 init_ctx"

subsection \<open>Poles among the parameters\<close>



text \<open>
  The pole of the amended claim, with the comparison in the direction of the source
  (\<^verbatim>\<open>cc <= 0 and c <= cc\<close>): no parameter on the numerator side is an exact integer
  between it and 0.
\<close>

definition matches_pole :: "string \<Rightarrow> pyval list \<Rightarrow> int \<Rightarrow> nat \<Rightarrow> bool" where
  "matches_pole flags coeffs n ii =
     (flags ! ii = CHR ''Z''
      \<and> (case coeffs ! ii of PyInt cc \<Rightarrow> cc \<le> 0 \<and> n \<le> cc | _ \<Rightarrow> False))"

definition is_pole :: "nat \<Rightarrow> string \<Rightarrow> pyval list \<Rightarrow> nat \<Rightarrow> bool" where
  "is_pole p flags coeffs i =
     (p \<le> i \<and> i < length coeffs \<and> flags ! i = CHR ''Z''
      \<and> (case coeffs ! i of
            PyInt n \<Rightarrow> n \<le> 0 \<and> \<not> list_ex (matches_pole flags coeffs n) [0 ..< min p (length coeffs)]
          | _ \<Rightarrow> False))"

text \<open>
  The flags fit the parameters when there is a flag for every parameter and every
  parameter flagged \<^verbatim>\<open>'Z'\<close> is a Python integer, as \<^verbatim>\<open>convert_maybe_rational\<close>
  pairs them.
\<close>

definition flags_fit :: "string \<Rightarrow> pyval list \<Rightarrow> bool" where
  "flags_fit flags coeffs =
     (length coeffs \<le> length flags
      \<and> list_all (\<lambda>j. flags ! j = CHR ''Z'' \<longrightarrow> (case coeffs ! j of PyInt n \<Rightarrow> True | _ \<Rightarrow> False))
           [0 ..< length coeffs])"



text \<open>\<^verbatim>\<open>hypsum\<close> called without keyword arguments.\<close>

definition no_hyp_kwargs :: hyp_kwargs where
  "no_hyp_kwargs = \<lparr>kw_maxprec = None, kw_zeroprec = None\<rparr>"





definition infinite_coeffs :: "pyval list" where
  "infinite_coeffs = [Tower (Mpc fzero finf), PyInt (- 2)]"


definition rational_coeffs :: "pyval list" where
  "rational_coeffs = [Mpq 1 2]"

text \<open>
  The frame of the \<^verbatim>\<open>while\<close> loop in the call
  \<^verbatim>\<open>hypsum(0, 1, 'Q', [mpq(1,2)], z, **kwargs)\<close> at 53 bits with the collaborators
  of the instance, and the keyword argument \<^verbatim>\<open>zeroprec=40\<close>.
\<close>

definition rational_frame :: "char \<times> kval \<Rightarrow> hyp_kwargs \<Rightarrow> frame" where
  "rational_frame kv kwargs =
     hypsum_frame example_kernel init_ctx 0 1 ''Q'' rational_coeffs kv True kwargs
       \<lparr>magnitude_check = [], max_total_jump = Fin 1, extraprec0 = Fin 50\<rparr>"

definition zero_kwargs :: hyp_kwargs where
  "zero_kwargs = \<lparr>kw_maxprec = None, kw_zeroprec = Some 40\<rparr>"

section \<open>Properties\<close>

subsection \<open>Exact rationals and isnpint\<close>

text \<open>
  C10. The claim: for an exact rational \<open>mpq(p, q)\<close> with \<open>q > 0\<close>, \<^verbatim>\<open>isnpint\<close>
  answers True exactly when the rational is a non-positive integer (\<open>q\<close> divides \<open>p\<close>
  and \<open>p \<le> 0\<close>). The branch, which the source marks \<^verbatim>\<open>XXX: WRONG\<close>, tests
  \<^verbatim>\<open>q % p\<close> instead of \<^verbatim>\<open>p % q\<close>: at \<open>mpq(-1, 2)\<close>, the value \<open>-1/2\<close>, it
  answers True although the value is no integer, and at \<open>mpq(-4, 2)\<close>, the value
  \<open>-2\<close>, it answers False although the value is a non-positive integer.
\<close>

theorem isnpint_mpq_wrong:
  "isnpint K c (Mpq (- 1) 2) = Inr True \<and> mpq_is_npint (- 1) 2 = False
   \<and> isnpint K c (Mpq (- 4) 2) = Inr False \<and> mpq_is_npint (- 4) 2 = True"
  by (simp add: isnpint_def isnpint_mpq_def mpq_is_npint_def)

subsection \<open>Ordering is undefined on complex numbers and intervals\<close>

text \<open>
  C4. Each of the four operators \<open><\<close>, \<open>\<le>\<close>, \<open>>\<close>, \<open>\<ge>\<close> between two complex
  values, and between two intervals, raises the \<^verbatim>\<open>TypeError\<close> of \<^verbatim>\<open>_compare\<close>; none
  returns a boolean. For \<open><\<close> the left operand has no \<^verbatim>\<open>__lt__\<close>, and the
  error comes from the reflected \<^verbatim>\<open>__gt__\<close> of the right operand.
\<close>

theorem no_ordering_on_mpc_mpi:
  "mpc_order opr x y = Inl (TypeError ''no ordering relation is defined for complex numbers'')
   \<and> mpi_order opr a b = Inl (TypeError ''no ordering relation is defined for intervals'')"
  by (cases opr)
    (simp_all add: mpc_order_def mpi_order_def rich_compare_def half_richcompare_def
      mpc_methods_def mpi_methods_def mpc_compare_def mpi_compare_def)

subsection \<open>Precision scopes\<close>

lemma with_stmt_restores:
  assumes "1 \<le> c_prec (w_ctx w)" and "fst (prec_rounding (w_ctx w)) = c_prec (w_ctx w)"
    and "keeps_origp a body"
  shows "c_prec (w_ctx (snd (with_stmt K a body w))) = c_prec (w_ctx w)
       \<and> fst (prec_rounding (w_ctx (snd (with_stmt K a body w)))) = c_prec (w_ctx w)"
proof (cases "override K ((w_mgr w a)\<lparr>origp := Some (c_prec (w_ctx w))\<rparr>) (w_ctx w)")
  case (Inl e)
  then show ?thesis using assms(2) by (simp add: with_stmt_def pm_enter_def Let_def)
next
  case (Inr c1)
  then obtain w1 where w1: "pm_enter K a w = (Inr (), w1)"
    by (simp add: pm_enter_def Let_def)
  then have saved: "origp (w_mgr w1 a) = Some (c_prec (w_ctx w))"
    by (auto simp: pm_enter_def Let_def split: sum.splits)
  obtain r w2 where b: "body w1 = (r, w2)" by (cases "body w1")
  from assms(3) have "origp (w_mgr (snd (body w1)) a) = origp (w_mgr w1 a)"
    unfolding keeps_origp_def by blast
  with saved b have "origp (w_mgr w2 a) = Some (c_prec (w_ctx w))" by simp
  then show ?thesis using w1 b assms(1)
    by (simp add: with_stmt_def pm_exit_def set_prec_def)
qed

lemma pm_call_restores:
  assumes "1 \<le> c_prec (w_ctx w)"
  shows "c_prec (w_ctx (snd (pm_call K a f pos w))) = c_prec (w_ctx w)
       \<and> fst (prec_rounding (w_ctx (snd (pm_call K a f pos w)))) = c_prec (w_ctx w)"
  using assms
  by (simp add: pm_call_def Let_def set_prec_def split: sum.splits prod.splits)

text \<open>
  A \<^verbatim>\<open>with\<close> block whose body does not enter the same manager object again restores
  both copies of the precision in effect before it, whether the body returns or raises;
  the decorated call does so for every body.
\<close>

lemma scopes_restore_unless_reentered:
  assumes "1 \<le> c_prec (w_ctx w)" and "fst (prec_rounding (w_ctx w)) = c_prec (w_ctx w)"
  shows "(keeps_origp a body \<longrightarrow>
            c_prec (w_ctx (snd (with_stmt K a body w))) = c_prec (w_ctx w)
            \<and> fst (prec_rounding (w_ctx (snd (with_stmt K a body w)))) = c_prec (w_ctx w))
       \<and> c_prec (w_ctx (snd (pm_call K a f pos w))) = c_prec (w_ctx w)
       \<and> fst (prec_rounding (w_ctx (snd (pm_call K a f pos w)))) = c_prec (w_ctx w)"
  using with_stmt_restores [OF assms, of a body K] pm_call_restores [OF assms(1), of K a f pos]
  by blast

text \<open>
  C5. The claim asks every precision scope to restore, on exit, the precision in effect
  before entry. The \<^verbatim>\<open>with\<close> form keeps that precision in the attribute \<^verbatim>\<open>origp\<close>
  of the manager object, one value per object. For \<^verbatim>\<open>pm = mp.workprec(100)\<close> and
  \<^verbatim>\<open>with pm: with pm: pass\<close>, started at 53 bits, the inner entry overwrites
  \<^verbatim>\<open>origp\<close> with 100, and the outer exit leaves both copies of the precision at 100.
  The decorator form keeps the precision in the local \<^verbatim>\<open>orig\<close>: the same manager,
  used as a decorator inside its own decorated call, restores 53.
\<close>

theorem reentered_manager_not_restored:
  "c_prec (w_ctx reentry_world) = 53
   \<and> fst (prec_rounding (w_ctx reentry_world)) = 53
   \<and> c_prec (w_ctx (snd (with_stmt example_kernel 0 (with_stmt example_kernel 0 skip)
        reentry_world))) = 100
   \<and> fst (prec_rounding (w_ctx (snd (with_stmt example_kernel 0
        (with_stmt example_kernel 0 skip) reentry_world)))) = 100
   \<and> c_prec (w_ctx (snd (pm_call example_kernel 0
        (pm_call example_kernel 0 skip (\<lambda>c v. Inr v)) (\<lambda>c v. Inr v) reentry_world))) = 53
   \<and> fst (prec_rounding (w_ctx (snd (pm_call example_kernel 0
        (pm_call example_kernel 0 skip (\<lambda>c v. Inr v)) (\<lambda>c v. Inr v) reentry_world)))) = 53"
  by (simp add: reentry_world_def init_ctx_def with_stmt_def pm_enter_def pm_exit_def
      pm_call_def override_def set_prec_def workprec_def PrecisionManager_def skip_def Let_def)

subsection \<open>Precision and digits stay consistent\<close>

lemma log2_10_bounds: "3 < log2_10" "log2_10 < 7 / 2"
  by (simp_all add: log2_10_def)

lemma py_round_le: "x < of_int k + 1 / 2 \<Longrightarrow> 0 \<le> k \<Longrightarrow> py_round x \<le> k"
proof (cases "0 \<le> x")
  case True
  assume "x < of_int k + 1 / 2"
  then have "x + 1 / 2 < of_int (k + 1)" by simp
  then have "\<lfloor>x + 1 / 2\<rfloor> < k + 1" by (simp only: floor_less_iff)
  then show ?thesis using True by (simp add: py_round_def)
next
  case False
  assume k: "0 \<le> k"
  from False have "of_int 0 \<le> - x + 1 / 2" by simp
  then have f: "0 \<le> \<lfloor>- x + 1 / 2\<rfloor>" by (simp only: le_floor_iff)
  from False have "py_round x = - \<lfloor>- x + 1 / 2\<rfloor>" by (simp only: py_round_def if_False)
  then show ?thesis using f k by linarith
qed

lemma libmp_prec_to_dps_low: "n \<le> 3 \<Longrightarrow> libmp_prec_to_dps n = 1"
proof -
  assume n: "n \<le> 3"
  have c: "3 < log2_10" by (rule log2_10_bounds)
  then have cpos: "0 < log2_10" by simp
  have "of_int n \<le> (3 :: rat)" using n by simp
  also have "\<dots> < (of_int 1 + 1 / 2) * log2_10" using c by simp
  finally have "of_int n / log2_10 < of_int 1 + 1 / 2"
    using cpos by (simp only: pos_divide_less_eq)
  then have "py_round (of_int n / log2_10) \<le> 1" by (rule py_round_le) simp
  then show ?thesis by (simp add: libmp_prec_to_dps_def)
qed

lemma libmp_round_trip: "libmp_prec_to_dps (libmp_dps_to_prec n) = max 1 n"
proof (cases "1 \<le> n")
  case True
  define c where "c = log2_10"
  have c: "3 < c" "c < 7 / 2" unfolding c_def by (rule log2_10_bounds)+
  then have cpos: "0 < c" by simp
  define y where "y = of_int (n + 1) * c"
  define m where "m = \<lfloor>y + 1 / 2\<rfloor>"
  have y6: "6 < y"
  proof -
    have "(2::rat) \<le> of_int (n + 1)" using True by simp
    then have "2 * c \<le> of_int (n + 1) * c" using cpos by (simp only: mult_le_cancel_right_pos)
    then show ?thesis using c unfolding y_def by linarith
  qed
  have m1: "of_int m \<le> y + 1 / 2" unfolding m_def by (rule of_int_floor_le)
  have m2: "y + 1 / 2 < of_int m + 1" unfolding m_def by linarith
  have mpos: "1 \<le> m" using m2 y6 by linarith
  have yge: "0 \<le> y" using y6 by simp
  have "py_round y = m" using yge by (simp add: py_round_def m_def)
  then have dtp: "libmp_dps_to_prec n = m"
    using mpos by (simp add: libmp_dps_to_prec_def y_def c_def)
  have mc: "0 \<le> of_int m / c" using mpos cpos by simp
  have "\<lfloor>of_int m / c + 1 / 2\<rfloor> = n + 1"
  proof (rule floor_unique)
    have e1: "(of_int (n + 1) - 1 / 2) * c = y - c / 2" by (simp add: y_def algebra_simps)
    have "y - c / 2 \<le> of_int m" using m2 c by linarith
    then have "(of_int (n + 1) - 1 / 2) * c \<le> of_int m" using e1 by simp
    then have "of_int (n + 1) - 1 / 2 \<le> of_int m / c"
      using cpos by (simp only: pos_le_divide_eq)
    then show "of_int (n + 1) \<le> of_int m / c + 1 / 2" by linarith
    have e2: "(of_int (n + 1) + 1 / 2) * c = y + c / 2" by (simp add: y_def algebra_simps)
    have "of_int m < y + c / 2" using m1 c by linarith
    then have "of_int m < (of_int (n + 1) + 1 / 2) * c" using e2 by simp
    then have "of_int m / c < of_int (n + 1) + 1 / 2"
      using cpos by (simp only: pos_divide_less_eq)
    then show "of_int m / c + 1 / 2 < of_int (n + 1) + 1" by linarith
  qed
  then have "py_round (of_int m / c) = n + 1" using mc by (simp add: py_round_def)
  then have "libmp_prec_to_dps m = max 1 n" using True by (simp add: libmp_prec_to_dps_def c_def)
  then show ?thesis using dtp by simp
next
  case False
  then have n: "n \<le> 0" by simp
  have c: "3 < log2_10" "log2_10 < 7 / 2" by (rule log2_10_bounds)+
  have "of_int (n + 1) * log2_10 \<le> 1 * log2_10"
    using n c by (intro mult_right_mono) auto
  then have "of_int (n + 1) * log2_10 \<le> log2_10" by (simp only: mult_1)
  then have "of_int (n + 1) * log2_10 < 7 / 2" using c by linarith
  moreover have "(7 :: rat) / 2 = of_int 3 + 1 / 2" by simp
  ultimately have "of_int (n + 1) * log2_10 < of_int 3 + 1 / 2" by (simp only:)
  then have "py_round (of_int (n + 1) * log2_10) \<le> 3" by (rule py_round_le) simp
  then have "libmp_dps_to_prec n \<le> 3" by (simp add: libmp_dps_to_prec_def)
  then have "libmp_prec_to_dps (libmp_dps_to_prec n) = 1" by (rule libmp_prec_to_dps_low)
  then show ?thesis using n by simp
qed

lemma libmp_clamp: "libmp_prec_to_dps n = libmp_prec_to_dps (max 1 n)"
proof (cases "1 \<le> n")
  case True
  then show ?thesis by (simp add: max_def)
next
  case False
  then have "libmp_prec_to_dps n = 1" by (intro libmp_prec_to_dps_low) simp
  moreover have "libmp_prec_to_dps 1 = 1" by (intro libmp_prec_to_dps_low) simp
  ultimately show ?thesis using False by (simp add: max_def)
qed

lemma libmp_prec_to_dps_ge: "1 \<le> libmp_prec_to_dps n"
  by (simp add: libmp_prec_to_dps_def)

lemma libmp_dps_to_prec_ge: "1 \<le> libmp_dps_to_prec n"
  by (simp add: libmp_dps_to_prec_def)

lemma libmp_prec_to_dps_54: "libmp_prec_to_dps 54 = 15"
  by code_simp

lemma libmp_dps_to_prec_15: "libmp_dps_to_prec 15 = 53"
  by code_simp

lemma libmp_prec_to_dps_53: "libmp_prec_to_dps 53 = 15"
  by code_simp

text \<open>
  C6 as stated fails: after \<^verbatim>\<open>set_prec(54)\<close> the context stores 54 bits with 15
  digits, and \<^verbatim>\<open>dps_to_prec(15)\<close> is 53. The precision is finer than the digits, so
  the two fields cannot each be the conversion of the other.
\<close>

theorem set_prec_not_mutual_counterexample:
  "c_prec (set_prec example_kernel 54 init_ctx) = 54
   \<and> c_dps (set_prec example_kernel 54 init_ctx) = 15
   \<and> dps_to_prec example_kernel 15 = 53
   \<and> \<not> mutually_consistent example_kernel (set_prec example_kernel 54 init_ctx)"
  by (simp add: set_prec_def init_ctx_def example_kernel_def mutually_consistent_def
      libmp_prec_to_dps_54 libmp_dps_to_prec_15)

text \<open>
  C6, as amended. With the two conversions of the kernel, after \<^verbatim>\<open>set_prec(n)\<close> and
  after \<^verbatim>\<open>set_dps(n)\<close>, for every integer \<open>n\<close>, the stored digits are
  \<^verbatim>\<open>prec_to_dps\<close> of the stored precision, and both are at least 1; after
  \<^verbatim>\<open>set_dps(n)\<close> with \<open>n \<ge> 1\<close> the stored precision is also \<^verbatim>\<open>dps_to_prec\<close> of
  the stored digits.
\<close>

theorem setters_keep_digits_consistent:
  "prec_to_dps K = libmp_prec_to_dps \<and> dps_to_prec K = libmp_dps_to_prec \<longrightarrow>
     digits_follow_precision K (set_prec K n c)
     \<and> digits_follow_precision K (set_dps K n c)
     \<and> (1 \<le> n \<longrightarrow> mutually_consistent K (set_dps K n c))"
proof
  assume k: "prec_to_dps K = libmp_prec_to_dps \<and> dps_to_prec K = libmp_dps_to_prec"
  have a: "digits_follow_precision K (set_prec K n c)"
    using k libmp_clamp [of n] libmp_prec_to_dps_ge [of n]
    by (simp add: digits_follow_precision_def set_prec_def)
  have b: "digits_follow_precision K (set_dps K n c)"
    using k libmp_round_trip [of n] libmp_dps_to_prec_ge [of n]
    by (simp add: digits_follow_precision_def set_dps_def)
  have m: "mutually_consistent K (set_dps K n c)" if "1 \<le> n"
    using k that libmp_round_trip [of n] libmp_dps_to_prec_ge [of n]
    by (simp add: mutually_consistent_def set_dps_def)
  from a b m show "digits_follow_precision K (set_prec K n c)
     \<and> digits_follow_precision K (set_dps K n c)
     \<and> (1 \<le> n \<longrightarrow> mutually_consistent K (set_dps K n c))"
    by blast
qed

theorem setters_keep_digits_consistent_witness:
  "prec_to_dps example_kernel = libmp_prec_to_dps
   \<and> dps_to_prec example_kernel = libmp_dps_to_prec
   \<and> digits_follow_precision example_kernel (set_prec example_kernel (- 7) init_ctx)
   \<and> digits_follow_precision example_kernel (set_dps example_kernel (- 7) init_ctx)
   \<and> (1 :: int) \<le> 15
   \<and> digits_follow_precision example_kernel (set_prec example_kernel 15 init_ctx)
   \<and> mutually_consistent example_kernel (set_dps example_kernel 15 init_ctx)
   \<and> c_prec (set_dps example_kernel 15 init_ctx) = 53
   \<and> c_dps (set_dps example_kernel 15 init_ctx) = 15"
proof -
  have k: "prec_to_dps example_kernel = libmp_prec_to_dps
      \<and> dps_to_prec example_kernel = libmp_dps_to_prec"
    by (simp add: example_kernel_def)
  have v: "c_prec (set_dps example_kernel 15 init_ctx) = 53"
    "c_dps (set_dps example_kernel 15 init_ctx) = 15"
    by (simp_all add: set_dps_def example_kernel_def libmp_dps_to_prec_15)
  show ?thesis
    using setters_keep_digits_consistent [of example_kernel "- 7" init_ctx]
      setters_keep_digits_consistent [of example_kernel 15 init_ctx] k v
    by simp
qed

subsection \<open>Promotion to complex, or the trap\<close>

lemma from_int_minus_one: "from_int (- 1) = fnone"
  by code_simp

text \<open>
  C3. Let \<^verbatim>\<open>f\<close> be defined by \<^verbatim>\<open>def_mp_function\<close> from the kernel functions
  \<^verbatim>\<open>mpf_f\<close> and \<^verbatim>\<open>mpc_f\<close>, and let \<^verbatim>\<open>mpf_f\<close> raise \<^verbatim>\<open>ComplexResult\<close> on
  the value of a real input. With \<^verbatim>\<open>trap_complex\<close> set the call raises
  \<^verbatim>\<open>ComplexResult\<close>; without it the call returns what \<^verbatim>\<open>mpc_f\<close> gives on the
  pair of the value and zero, as a complex number. For \<^verbatim>\<open>sqrt\<close>: when the kernel's
  real square root signals a complex result at -1 and its complex square root of
  \<open>(-1, 0)\<close> is \<open>(0, 1)\<close>, then \<^verbatim>\<open>sqrt(-1)\<close> is \<^verbatim>\<open>ctx.j\<close> without the trap, and
  raises with it.
\<close>

theorem complex_result_promotes_or_traps:
  "(real_payload c t = Some v
      \<and> mpf_f v (call_prec K c kw) (call_rounding c kw) = Inl ComplexResult \<longrightarrow>
      (trap_complex c \<longrightarrow>
         def_mp_function K c mpf_f mpc_f mpi_f (Tower t) kw = Inl ComplexResult)
      \<and> (\<not> trap_complex c \<longrightarrow>
         def_mp_function K c mpf_f (Some g) mpi_f (Tower t) kw =
           (case g (v, fzero) (call_prec K c kw) (call_rounding c kw) of
              Inl e \<Rightarrow> Inl e
            | Inr r \<Rightarrow> Inr (make_mpc r))))
   \<and> (mpf_sqrt K fnone (fst (prec_rounding c)) (snd (prec_rounding c)) = Inl ComplexResult
      \<and> mpc_sqrt K (fnone, fzero) (fst (prec_rounding c)) (snd (prec_rounding c))
          = Inr (fzero, fone) \<longrightarrow>
      (trap_complex c \<longrightarrow> ctx_sqrt K c (PyInt (- 1)) no_kwargs = Inl ComplexResult)
      \<and> (\<not> trap_complex c \<longrightarrow> ctx_sqrt K c (PyInt (- 1)) no_kwargs = Inr ctx_j))"
proof (intro conjI impI)
  assume h: "real_payload c t = Some v
      \<and> mpf_f v (call_prec K c kw) (call_rounding c kw) = Inl ComplexResult"
  {
    assume "trap_complex c"
    with h show "def_mp_function K c mpf_f mpc_f mpi_f (Tower t) kw = Inl ComplexResult"
      by (cases t) (auto simp: def_mp_function_def mp_function_real_def real_payload_def Let_def)
  }
  {
    assume "\<not> trap_complex c"
    with h show "def_mp_function K c mpf_f (Some g) mpi_f (Tower t) kw =
           (case g (v, fzero) (call_prec K c kw) (call_rounding c kw) of
              Inl e \<Rightarrow> Inl e
            | Inr r \<Rightarrow> Inr (make_mpc r))"
      by (cases t)
        (auto simp: def_mp_function_def mp_function_real_def real_payload_def call_mpc_f_def
          Let_def)
  }
next
  assume k: "mpf_sqrt K fnone (fst (prec_rounding c)) (snd (prec_rounding c)) = Inl ComplexResult
      \<and> mpc_sqrt K (fnone, fzero) (fst (prec_rounding c)) (snd (prec_rounding c))
          = Inr (fzero, fone)"
  {
    assume "trap_complex c"
    with k show "ctx_sqrt K c (PyInt (- 1)) no_kwargs = Inl ComplexResult"
      by (simp add: ctx_sqrt_def def_mp_function_def mp_function_real_def convert_def
          make_mpf_def from_int_minus_one call_prec_def call_rounding_def no_kwargs_def)
  }
  {
    assume "\<not> trap_complex c"
    with k show "ctx_sqrt K c (PyInt (- 1)) no_kwargs = Inr ctx_j"
      by (simp add: ctx_sqrt_def def_mp_function_def mp_function_real_def convert_def
          make_mpf_def from_int_minus_one call_prec_def call_rounding_def no_kwargs_def
          call_mpc_f_def ctx_j_def)
  }
qed

lemma example_sqrt_contract:
  "mpf_sqrt example_kernel fnone p r = Inl ComplexResult
   \<and> mpc_sqrt example_kernel (fnone, fzero) p r = Inr (fzero, fone)"
  by (simp add: example_kernel_def example_mpf_sqrt_def example_mpc_sqrt_def fnone_def
      fzero_def fone_def)

theorem complex_result_promotes_or_traps_witness:
  "real_payload init_ctx (Mpf fnone) = Some fnone
   \<and> example_mpf_sqrt fnone (call_prec example_kernel init_ctx no_kwargs)
        (call_rounding init_ctx no_kwargs) = Inl ComplexResult
   \<and> \<not> trap_complex init_ctx \<and> trap_complex (init_ctx\<lparr>trap_complex := True\<rparr>)
   \<and> def_mp_function example_kernel init_ctx example_mpf_sqrt (Some example_mpc_sqrt) None
        (Tower (Mpf fnone)) no_kwargs = Inr (Mpc fzero fone)
   \<and> def_mp_function example_kernel (init_ctx\<lparr>trap_complex := True\<rparr>) example_mpf_sqrt
        (Some example_mpc_sqrt) None (Tower (Mpf fnone)) no_kwargs = Inl ComplexResult
   \<and> ctx_sqrt example_kernel init_ctx (PyInt (- 1)) no_kwargs = Inr ctx_j
   \<and> ctx_sqrt example_kernel (init_ctx\<lparr>trap_complex := True\<rparr>) (PyInt (- 1)) no_kwargs
        = Inl ComplexResult"
proof -
  have a: "example_mpf_sqrt fnone p r = Inl ComplexResult" for p r
    by (simp add: example_mpf_sqrt_def fnone_def fzero_def fone_def)
  have b: "example_mpc_sqrt (fnone, fzero) p r = Inr (fzero, fone)" for p r
    by (simp add: example_mpc_sqrt_def)
  have t: "\<not> trap_complex init_ctx" "trap_complex (init_ctx\<lparr>trap_complex := True\<rparr>)"
    by (simp_all add: init_ctx_def)
  have p: "real_payload c (Mpf fnone) = Some fnone" for c
    by (simp add: real_payload_def)
  show ?thesis
    using complex_result_promotes_or_traps [of init_ctx "Mpf fnone" fnone example_mpf_sqrt
        example_kernel no_kwargs "Some example_mpc_sqrt" None example_mpc_sqrt]
      complex_result_promotes_or_traps [of "init_ctx\<lparr>trap_complex := True\<rparr>" "Mpf fnone"
        fnone example_mpf_sqrt example_kernel no_kwargs "Some example_mpc_sqrt" None
        example_mpc_sqrt]
      a b t p example_sqrt_contract
    by (simp add: make_mpc_def)
qed

subsection \<open>Construction of intervals\<close>

lemma mpf_le_ninf_inf: "mpf_le fninf finf"
  by (simp add: mpf_le_def fninf_def finf_def fnan_def)

text \<open>
  C8, as amended. Let the two endpoint arguments convert to \<open>lo\<close>, rounded toward
  floor, and \<open>hi\<close>, rounded toward ceiling (the upper argument defaults to the lower
  one). If either is nan the interval is \<open>(-inf, +inf)\<close>; otherwise, if \<open>lo \<le> hi\<close>
  the interval is \<open>(lo, hi)\<close>, and if not the construction fails with the
  \<^verbatim>\<open>AssertionError\<close> of the \<^verbatim>\<open>assert\<close> statement. Every interval that is returned
  has its lower endpoint below or equal to its upper endpoint.
\<close>

theorem mpi_new_endpoints:
  assumes "mpf_new K c a (no_kwargs\<lparr>kw_rounding := Some round_floor\<rparr>) = Inr lo"
    and "mpf_new K c (case b of PyNone \<Rightarrow> a | _ \<Rightarrow> b)
           (no_kwargs\<lparr>kw_rounding := Some round_ceiling\<rparr>) = Inr hi"
    and "\<forall>x y. a \<noteq> Tower (Mpi x y)"
  shows "(lo = fnan \<or> hi = fnan \<longrightarrow> mpi_new K c a b = Inr (Mpi fninf finf))
       \<and> (lo \<noteq> fnan \<and> hi \<noteq> fnan \<and> mpf_le lo hi \<longrightarrow> mpi_new K c a b = Inr (Mpi lo hi))
       \<and> (lo \<noteq> fnan \<and> hi \<noteq> fnan \<and> \<not> mpf_le lo hi \<longrightarrow>
            mpi_new K c a b = Inl (AssertionError ''endpoints must be properly ordered''))
       \<and> (\<forall>l h. mpi_new K c a b = Inr (Mpi l h) \<longrightarrow> mpf_le l h)"
proof -
  define ends where "ends = (if lo = fnan \<or> hi = fnan then (fninf, finf) else (lo, hi))"
  have nm: "(case a of Tower (Mpi x y) \<Rightarrow> X x y | _ \<Rightarrow> Y) = Y" for X :: "mpf \<Rightarrow> mpf \<Rightarrow> error + tower" and Y
  proof (cases a)
    case (Tower t)
    with assms(3) have "\<forall>x y. t \<noteq> Mpi x y" by simp
    then show ?thesis using Tower by (cases t) simp_all
  qed simp_all
  have unf: "mpi_new K c a b =
      (if mpf_le (fst ends) (snd ends) then Inr (make_mpi ends)
       else Inl (AssertionError ''endpoints must be properly ordered''))"
    by (simp only: mpi_new_def nm Let_def assms(1) assms(2) sum.case ends_def)
  show ?thesis
    unfolding unf
    by (auto simp: ends_def make_mpi_def mpf_le_ninf_inf)
qed

lemma normalize_7_floor: "normalize_mpf 0 7 0 3 2 round_floor = (0, 3, 1, 2)"
  by code_simp
lemma normalize_7_ceiling: "normalize_mpf 0 7 0 3 2 round_ceiling = (0, 1, 3, 1)"
  by code_simp
lemma from_int_7: "from_int 7 = (0, 7, 0, 3)"
  by code_simp
lemma from_int_1: "from_int 1 = (0, 1, 0, 1)"
  by code_simp
lemma from_int_2: "from_int 2 = (0, 1, 1, 1)"
  by code_simp
lemma mpf_le_6_8: "mpf_le (0, 3, 1, 2) (0, 1, 3, 1)"
  by code_simp
lemma mpf_le_2_1: "\<not> mpf_le (0, 1, 1, 1) (0, 1, 0, 1)"
  by code_simp
lemma normalize_small:
  "normalize_mpf 0 1 0 1 53 rnd = (0, 1, 0, 1)" "normalize_mpf 0 1 1 1 53 rnd = (0, 1, 1, 1)"
  by (simp_all add: normalize_mpf_def Let_def trailing.simps)

lemma mpf_new_7_floor:
  "mpf_new K two_bit_ctx (PyInt 7) (no_kwargs\<lparr>kw_rounding := Some round_floor\<rparr>) = Inr (0, 3, 1, 2)"
  by (simp add: mpf_new_def mpf_convert_arg_def call_prec_def call_rounding_def no_kwargs_def
      two_bit_ctx_def set_prec_def init_ctx_def Let_def from_int_7 mpf_pos_def normalize_7_floor)

lemma mpf_new_7_ceiling:
  "mpf_new K two_bit_ctx (PyInt 7) (no_kwargs\<lparr>kw_rounding := Some round_ceiling\<rparr>) = Inr (0, 1, 3, 1)"
  by (simp add: mpf_new_def mpf_convert_arg_def call_prec_def call_rounding_def no_kwargs_def
      two_bit_ctx_def set_prec_def init_ctx_def Let_def from_int_7 mpf_pos_def normalize_7_ceiling)

theorem mpi_new_endpoints_witness:
  "mpf_new example_kernel two_bit_ctx (PyInt 7) (no_kwargs\<lparr>kw_rounding := Some round_floor\<rparr>)
     = Inr (0, 3, 1, 2)
   \<and> mpf_new example_kernel two_bit_ctx (PyInt 7)
       (no_kwargs\<lparr>kw_rounding := Some round_ceiling\<rparr>) = Inr (0, 1, 3, 1)
   \<and> (\<forall>x y. PyInt 7 \<noteq> Tower (Mpi x y))
   \<and> (0, 3, 1, 2) \<noteq> fnan \<and> (0, 1, 3, 1) \<noteq> fnan \<and> mpf_le (0, 3, 1, 2) (0, 1, 3, 1)
   \<and> mpi_new example_kernel two_bit_ctx (PyInt 7) PyNone = Inr (Mpi (0, 3, 1, 2) (0, 1, 3, 1))"
proof -
  have n: "\<forall>x y. PyInt 7 \<noteq> Tower (Mpi x y)" by simp
  have f: "mpf_new example_kernel two_bit_ctx (case PyNone of PyNone \<Rightarrow> PyInt 7 | _ \<Rightarrow> PyNone)
       (no_kwargs\<lparr>kw_rounding := Some round_ceiling\<rparr>) = Inr (0, 1, 3, 1)"
    using mpf_new_7_ceiling by simp
  have d: "(0, 3, 1, 2) \<noteq> fnan" "(0, 1, 3, 1) \<noteq> fnan" by (simp_all add: fnan_def)
  show ?thesis
    using mpi_new_endpoints [OF mpf_new_7_floor f n] mpf_new_7_floor mpf_new_7_ceiling n d
      mpf_le_6_8
    by simp
qed

text \<open>
  C8 as stated fails on the error: \<^verbatim>\<open>mpi(2, 1)\<close> raises \<^verbatim>\<open>AssertionError\<close>, not
  \<^verbatim>\<open>ValueError\<close>.
\<close>

theorem mpi_new_inverted_counterexample:
  "mpi_new example_kernel init_ctx (PyInt 2) (PyInt 1)
     = Inl (AssertionError ''endpoints must be properly ordered'')"
  by (simp add: mpi_new_def mpf_new_def mpf_convert_arg_def call_prec_def call_rounding_def
      no_kwargs_def init_ctx_def Let_def from_int_1 from_int_2 mpf_pos_def normalize_small
      fnan_def mpf_le_2_1)

subsection \<open>What convert keeps exact\<close>

lemma trailing_dvd: "2 ^ trailing m dvd m"
proof (induction m rule: trailing.induct)
  case (1 m)
  show ?case
  proof (cases "m = 0 \<or> odd m")
    case True
    then have "trailing m = 0" by (subst trailing.simps) simp
    then show ?thesis by simp
  next
    case False
    then have ev: "even m" and nz: "m \<noteq> 0" by auto
    from 1 False have ih: "2 ^ trailing (m div 2) dvd m div 2" by simp
    from ev have m: "2 * (m div 2) = m" by simp
    have "2 * 2 ^ trailing (m div 2) dvd 2 * (m div 2)" using ih by simp
    then have k: "2 * 2 ^ trailing (m div 2) dvd m" by (simp only: m)
    have "trailing m = Suc (trailing (m div 2))" using False by (subst trailing.simps) simp
    then show ?thesis using k by simp
  qed
qed

lemma pow2_powi: "pow2 e = 2 powi e"
  by (simp add: pow2_def power_int_def inverse_eq_divide power_one_over)

lemma pow2_add: "pow2 (e + int t) = pow2 e * 2 ^ t"
  by (simp add: pow2_powi power_int_add)

lemma mpf_value_from_man_exp: "mpf_value (from_man_exp m e) = of_int m * pow2 e"
proof (cases "m = 0")
  case True
  then show ?thesis by (simp add: from_man_exp_def fzero_def mpf_value_def)
next
  case False
  define t where "t = trailing m"
  have "2 ^ t dvd m" unfolding t_def by (rule trailing_dvd)
  then have d: "(2::int) ^ t dvd \<bar>m\<bar>" by simp
  then have eq: "\<bar>m\<bar> div 2 ^ t * 2 ^ t = \<bar>m\<bar>" by simp
  have "(of_int (\<bar>m\<bar> div 2 ^ t) :: rat) * 2 ^ t = of_int (\<bar>m\<bar> div 2 ^ t * 2 ^ t)" by simp
  also have "\<dots> = of_int \<bar>m\<bar>" using eq by simp
  finally have r: "(of_int (\<bar>m\<bar> div 2 ^ t) :: rat) * 2 ^ t = of_int \<bar>m\<bar>" .
  have "mpf_value (from_man_exp m e)
      = (if m < 0 then - 1 else 1) * (of_int (\<bar>m\<bar> div 2 ^ t) * 2 ^ t) * pow2 e"
    using False by (simp add: from_man_exp_def mpf_value_def Let_def t_def pow2_add)
  also have "\<dots> = (if m < 0 then - 1 else 1) * of_int \<bar>m\<bar> * pow2 e" by (simp only: r)
  also have "\<dots> = of_int m * pow2 e" by simp
  finally show ?thesis .
qed

lemma from_man_exp_finite: "\<not> is_special (from_man_exp m e)"
proof (cases "m = 0")
  case True
  then show ?thesis by (simp add: from_man_exp_def fzero_def is_special_def)
next
  case False
  have "2 ^ trailing m dvd m" by (rule trailing_dvd)
  then have d: "(2::int) ^ trailing m dvd \<bar>m\<bar>" by simp
  have "\<bar>m\<bar> div 2 ^ trailing m \<noteq> 0"
  proof
    assume z: "\<bar>m\<bar> div 2 ^ trailing m = 0"
    from d have "\<bar>m\<bar> div 2 ^ trailing m * 2 ^ trailing m = \<bar>m\<bar>" by simp
    with z False show False by simp
  qed
  then show ?thesis using False by (simp add: from_man_exp_def is_special_def Let_def)
qed

text \<open>
  C7, as amended. \<^verbatim>\<open>convert\<close> is exact on native integers, floats and complex
  numbers, at every precision (the float specials go to the kernel's specials). An exact
  rational \<^verbatim>\<open>mpq(p, q)\<close> is handed to \<^verbatim>\<open>from_rational\<close> with the current
  precision, and a string to \<^verbatim>\<open>from_str\<close> with the current precision and rounding:
  both are rounded.
\<close>

theorem convert_lossless_native:
  "converts_exactly K c (PyInt n)
   \<and> converts_exactly K c (PyFloat (Float m e))
   \<and> converts_exactly K c (PyComplex (Float m e) (Float m2 e2))
   \<and> convert K c (PyFloat FloatInf) True = Inr (Mpf finf)
   \<and> convert K c (PyFloat FloatNInf) True = Inr (Mpf fninf)
   \<and> convert K c (PyFloat FloatNaN) True = Inr (Mpf fnan)
   \<and> convert K c (Mpq p q) True =
       (case from_rational p q (fst (prec_rounding c)) of
          Inl err \<Rightarrow> Inl err
        | Inr v \<Rightarrow> Inr (Mpf v))
   \<and> (from_str K s (fst (prec_rounding c)) (snd (prec_rounding c)) = Inr v \<longrightarrow>
        convert K c (PyStr s) True = Inr (Mpf v))"
  by (simp add: converts_exactly_def convert_def py_exact_def tower_exact_def float_exact_def
      make_mpf_def make_mpc_def from_int_def mpf_value_from_man_exp from_man_exp_finite
      pow2_def split: sum.splits)

lemma from_rational_third_53: "from_rational 1 3 53 = Inr (0, 6004799503160661, - 54, 53)"
  by code_simp

lemma from_rational_third_2: "from_rational 1 3 2 = Inr (0, 1, - 2, 1)"
  by code_simp

lemma third_value: "mpf_value (0, 6004799503160661, - 54, 53) \<noteq> 1 / 3"
  by code_simp

text \<open>
  No kernel real value is \<open>1/3\<close>, so \<^verbatim>\<open>convert(mpq(1, 3))\<close> is not exact, whatever
  \<^verbatim>\<open>from_rational\<close> returns.
\<close>

lemma three_not_dvd_pow2: "\<not> 3 dvd (2 :: int) ^ n"
proof
  assume d: "3 dvd (2 :: int) ^ n"
  have "coprime (3 :: int) 2" by simp
  then have "coprime (3 :: int) (2 ^ n)" by simp
  then have "is_unit (3 :: int)" using dvd_refl d by (rule coprime_common_divisor)
  then show False by (simp add: zdvd1_eq)
qed

lemma mpf_value_not_third: "mpf_value v \<noteq> 1 / 3"
proof
  assume a: "mpf_value v = 1 / 3"
  obtain sign man ex bc where v: "v = (sign, man, ex, bc)" by (cases v)
  define k where "k = (if sign = 0 then 1 else - 1) * man"
  have e: "of_int k * pow2 ex = (1 / 3 :: rat)"
    using a unfolding v mpf_value_def k_def by (cases "sign = 0") simp_all
  show False
  proof (cases "0 \<le> ex")
    case True
    with e have "of_int (3 * (k * 2 ^ nat ex)) = (1 :: rat)" by (simp add: pow2_def)
    then have "3 * (k * 2 ^ nat ex) = 1" by (simp only: of_int_eq_1_iff)
    then have "3 dvd (1 :: int)" by (metis dvd_triv_left)
    then show False by simp
  next
    case False
    define N :: rat where "N = 2 ^ nat (- ex)"
    have n: "N \<noteq> 0" by (simp add: N_def)
    from False have "pow2 ex = 1 / N" by (simp add: pow2_def N_def)
    with e have "of_int k * (1 / N) = 1 / 3" by (simp only:)
    with n have "3 * of_int k = N" by (simp add: field_simps)
    then have "of_int (3 * k) = (of_int (2 ^ nat (- ex)) :: rat)" by (simp add: N_def)
    then have "3 * k = 2 ^ nat (- ex)" by (simp only: of_int_eq_iff)
    then have "3 dvd (2 :: int) ^ nat (- ex)" by (metis dvd_triv_left)
    then show False by (simp add: three_not_dvd_pow2)
  qed
qed

lemma convert_never_third:
  assumes "convert K c (Mpq 1 3) True = Inr t"
  shows "tower_exact t \<noteq> py_exact (Mpq 1 3)"
proof -
  from assms obtain v where "t = Mpf v"
    by (auto simp: convert_def make_mpf_def split: sum.splits)
  then show ?thesis
    using mpf_value_not_third [of v] by (simp add: tower_exact_def py_exact_def)
qed

text \<open>
  C7 as stated fails on exact rationals: at 53 bits \<^verbatim>\<open>convert(mpq(1, 3))\<close> is
  \<open>6004799503160661 / 2^54\<close>, not \<open>1/3\<close>.
\<close>

theorem convert_mpq_rounds_counterexample:
  "\<not> converts_exactly example_kernel init_ctx (Mpq 1 3)"
  using third_value
  by (simp add: converts_exactly_def convert_def init_ctx_def from_rational_third_53
      make_mpf_def tower_exact_def py_exact_def is_special_def)

lemma example_from_str_12: "example_from_str ''12'' 53 round_nearest = Inr (0, 3, 2, 2)"
  by code_simp

theorem convert_lossless_native_witness:
  "from_str example_kernel ''12'' (fst (prec_rounding init_ctx)) (snd (prec_rounding init_ctx))
     = Inr (0, 3, 2, 2)
   \<and> convert example_kernel init_ctx (PyStr ''12'') True = Inr (Mpf (0, 3, 2, 2))
   \<and> converts_exactly example_kernel init_ctx (PyInt 12)
   \<and> convert example_kernel init_ctx (Mpq 1 3) True = Inr (Mpf (0, 6004799503160661, - 54, 53))
   \<and> convert example_kernel (set_prec example_kernel 2 init_ctx) (Mpq 1 3) True
       = Inr (Mpf (0, 1, - 2, 1))"
proof -
  have s: "from_str example_kernel ''12'' (fst (prec_rounding init_ctx))
      (snd (prec_rounding init_ctx)) = Inr (0, 3, 2, 2)"
    using example_from_str_12 by (simp add: example_kernel_def init_ctx_def)
  show ?thesis
    using convert_lossless_native [of example_kernel init_ctx 12 0 0 0 0 1 3 "''12''" "(0, 3, 2, 2)"]
      convert_lossless_native [of example_kernel "set_prec example_kernel 2 init_ctx" 12 0 0 0 0
        1 3 "''12''" "(0, 3, 2, 2)"]
      s
    by (simp add: init_ctx_def set_prec_def from_rational_third_53 from_rational_third_2)
qed

subsection \<open>Poles of the hypergeometric series\<close>

lemma upt_1: "[0 ..< Suc 0] = [0]"
  by simp

lemma upt_2: "[0 ..< 2] = [0, Suc 0]"
  by (simp add: upt_rec)

lemma bitcount_1: "bitcount 1 = 1"
  by code_simp

lemma bitcount_2: "bitcount 2 = 2"
  by code_simp








text \<open>
  A parameter before the pole that has no nearest-integer distance fails first, with its
  own error: a complex numerator with an infinite imaginary part.
\<close>

lemma hypsum_fails_before_pole:
  "flags_fit ''CZ'' infinite_coeffs \<and> is_pole 1 ''CZ'' infinite_coeffs 1
   \<and> hypsum example_kernel init_ctx 1 1 ''CZ'' infinite_coeffs (Tower (Mpf fone)) True
        no_hyp_kwargs
       = Some (Inl (ValueError ''requires a finite number''), [])"
  by (simp add: flags_fit_def is_pole_def matches_pole_def infinite_coeffs_def upt_1 upt_2
      hypsum_def z_key_def nint_distance_def nint_distance_tower_def finf_def fzero_def Let_def)






subsection \<open>The precision-escalation loop\<close>











lemma rational_scan:
  "scan_coeffs example_kernel init_ctx 0 ''Q'' rational_coeffs 53 0 rational_coeffs init_jumps
     = Inr \<lparr>magnitude_check = [], max_total_jump = Fin 1, extraprec0 = Fin 50\<rparr>"
  by (simp add: rational_coeffs_def init_jumps_def nint_distance_def note_jump_def Let_def
      bitcount_1 bitcount_2)


lemma rational_frame_fields:
  "f_prec (rational_frame kv kwargs) = 53"
  "f_maxprec (rational_frame kv no_hyp_kwargs) = 318"
  "f_maxprec (rational_frame kv zero_kwargs) = 318"
  "f_kwargs (rational_frame kv kwargs) = kwargs"
  by (simp_all add: rational_frame_def hypsum_frame_def init_ctx_def example_kernel_def
      no_hyp_kwargs_def zero_kwargs_def)

lemma rational_run:
  "run_summator (rational_frame kv kwargs) y eps = Inr (snd kv, - y, [])"
  by (simp add: run_summator_def rational_frame_def hypsum_frame_def init_ctx_def
      example_kernel_def example_summator_def)

lemma rational_resolved: "50 \<le> y \<Longrightarrow> jumps_resolved (rational_frame kv kwargs) y []"
  by (simp add: jumps_resolved_def rational_frame_def hypsum_frame_def)

lemma rational_not_accurate: "\<not> accurate (rational_frame kv kwargs) y (- (- y))"
  by (simp add: accurate_def rational_frame_def hypsum_frame_def)



subsection \<open>The exact zero beyond the threshold\<close>

lemma mpf_new_zero: "mpf_new K c (PyInt 0) no_kwargs = Inr fzero"
  by (simp add: mpf_new_def mpf_convert_arg_def from_int_def from_man_exp_def mpf_pos_def
      fzero_def normalize_mpf_def Let_def)

lemma mpc_new_zero: "mpc_new K c (PyInt 0) (PyInt 0) = Inr (Mpc fzero fzero)"
  by (simp add: mpc_new_def mpf_new_zero)

lemma loop_zero_beyond:
  assumes "y \<le> f_maxprec G" and "run_summator G y eps = Inr (zv, magnitude, md)"
    and "jumps_resolved G y md" and "\<not> accurate G y (- magnitude)"
    and "kw_zeroprec (f_kwargs G) = Some zeroprec" and "zeroprec < - magnitude"
  shows "hypsum_loop K c G y eps calls
       = Some (Inr (if have_complex zv then Mpc fzero fzero else Mpf fzero),
               calls @ [f_prec G + y])"
proof -
  from assms have z: "zero_beyond G (- magnitude)" by (simp add: zero_beyond_def)
  from assms z show ?thesis
    by (subst hypsum_loop.simps) (simp add: mpc_new_zero ctx_zero_def make_mpf_def)
qed

text \<open>
  C9. In a round of the \<^verbatim>\<open>while\<close> loop at the extra precision \<open>y\<close>, not above the
  ceiling, in which the summation kernel returns \<^verbatim>\<open>(zv, have_complex, magnitude)\<close>,
  the jumps are resolved, the result is not accurate, \<^verbatim>\<open>zeroprec\<close> is given and
  \<^verbatim>\<open>cancel = -magnitude\<close> exceeds it, the loop returns \<^verbatim>\<open>ctx.mpc(0)\<close>, the complex
  zero, when \<^verbatim>\<open>have_complex\<close>, and \<^verbatim>\<open>ctx.zero\<close>, the real zero, otherwise; no
  further round is run. When the round is the first one of a call of \<^verbatim>\<open>hypsum\<close>,
  the call returns this zero after a single call of the summation kernel.
\<close>

theorem hypsum_zero_beyond_threshold:
  "(y \<le> f_maxprec G \<and> run_summator G y eps = Inr (zv, magnitude, md)
    \<and> jumps_resolved G y md \<and> \<not> accurate G y (- magnitude)
    \<and> kw_zeroprec (f_kwargs G) = Some zeroprec \<and> zeroprec < - magnitude \<longrightarrow>
      hypsum_loop K c G y eps calls
        = Some (Inr (if have_complex zv then Mpc fzero fzero else Mpf fzero),
                calls @ [f_prec G + y]))
   \<and> (z_key c z = Some kv
      \<and> scan_coeffs K c p flags coeffs (c_prec c) 0 coeffs init_jumps = Inr J
      \<and> extraprec0 J = Fin x
      \<and> F = hypsum_frame K c p q flags coeffs kv accurate_small kwargs J
      \<and> x \<le> f_maxprec F \<and> run_summator F x 25 = Inr (zv1, magnitude1, md1)
      \<and> jumps_resolved F x md1 \<and> \<not> accurate F x (- magnitude1)
      \<and> kw_zeroprec kwargs = Some zeroprec1 \<and> zeroprec1 < - magnitude1 \<longrightarrow>
        hypsum K c p q flags coeffs z accurate_small kwargs
          = Some (Inr (if have_complex zv1 then Mpc fzero fzero else Mpf fzero),
                  [c_prec c + x]))"
proof (intro conjI impI)
  assume "y \<le> f_maxprec G \<and> run_summator G y eps = Inr (zv, magnitude, md)
    \<and> jumps_resolved G y md \<and> \<not> accurate G y (- magnitude)
    \<and> kw_zeroprec (f_kwargs G) = Some zeroprec \<and> zeroprec < - magnitude"
  then show "hypsum_loop K c G y eps calls
        = Some (Inr (if have_complex zv then Mpc fzero fzero else Mpf fzero),
                calls @ [f_prec G + y])"
    using loop_zero_beyond [of y G eps zv magnitude md zeroprec K c calls] by blast
next
  assume h: "z_key c z = Some kv
      \<and> scan_coeffs K c p flags coeffs (c_prec c) 0 coeffs init_jumps = Inr J
      \<and> extraprec0 J = Fin x
      \<and> F = hypsum_frame K c p q flags coeffs kv accurate_small kwargs J
      \<and> x \<le> f_maxprec F \<and> run_summator F x 25 = Inr (zv1, magnitude1, md1)
      \<and> jumps_resolved F x md1 \<and> \<not> accurate F x (- magnitude1)
      \<and> kw_zeroprec kwargs = Some zeroprec1 \<and> zeroprec1 < - magnitude1"
  then have f: "f_kwargs F = kwargs" "f_prec F = c_prec c"
    by (simp_all add: hypsum_frame_def)
  from h have a: "x \<le> f_maxprec F" "run_summator F x 25 = Inr (zv1, magnitude1, md1)"
    "jumps_resolved F x md1" "\<not> accurate F x (- magnitude1)"
    "kw_zeroprec kwargs = Some zeroprec1" "zeroprec1 < - magnitude1"
    by blast+
  from a(5) have k: "kw_zeroprec (f_kwargs F) = Some zeroprec1"
    by (simp only: f)
  from h have "hypsum K c p q flags coeffs z accurate_small kwargs
      = hypsum_loop K c F x 25 []"
    by (simp add: hypsum_def)
  also have "\<dots> = Some (Inr (if have_complex zv1 then Mpc fzero fzero else Mpf fzero),
                [] @ [f_prec F + x])"
    using a(1,2,3,4) k a(6) by (rule loop_zero_beyond)
  finally show "hypsum K c p q flags coeffs z accurate_small kwargs
          = Some (Inr (if have_complex zv1 then Mpc fzero fzero else Mpf fzero),
                  [c_prec c + x])"
    by (simp only: f append_Nil)
qed

theorem hypsum_zero_beyond_threshold_witness:
  "z_key init_ctx (Tower (Mpc fone fzero)) = Some (CHR ''C'', KComplex fone fzero)
   \<and> scan_coeffs example_kernel init_ctx 0 ''Q'' rational_coeffs (c_prec init_ctx) 0
        rational_coeffs init_jumps
       = Inr \<lparr>magnitude_check = [], max_total_jump = Fin 1, extraprec0 = Fin 50\<rparr>
   \<and> 50 \<le> f_maxprec (rational_frame (CHR ''C'', KComplex fone fzero) zero_kwargs)
   \<and> run_summator (rational_frame (CHR ''C'', KComplex fone fzero) zero_kwargs) 50 25
       = Inr (KComplex fone fzero, - 50, [])
   \<and> jumps_resolved (rational_frame (CHR ''C'', KComplex fone fzero) zero_kwargs) 50 []
   \<and> \<not> accurate (rational_frame (CHR ''C'', KComplex fone fzero) zero_kwargs) 50 (- (- 50))
   \<and> kw_zeroprec zero_kwargs = Some 40 \<and> (40 :: int) < - (- 50)
   \<and> hypsum_loop example_kernel init_ctx
        (rational_frame (CHR ''C'', KComplex fone fzero) zero_kwargs) 50 25 []
       = Some (Inr (Mpc fzero fzero), [103])
   \<and> hypsum example_kernel init_ctx 0 1 ''Q'' rational_coeffs (Tower (Mpc fone fzero)) True
        zero_kwargs
       = Some (Inr (Mpc fzero fzero), [103])
   \<and> hypsum_loop example_kernel init_ctx
        (rational_frame (CHR ''R'', KReal fone) zero_kwargs) 50 25 []
       = Some (Inr (Mpf fzero), [103])"
proof -
  define G where "G = rational_frame (CHR ''C'', KComplex fone fzero) zero_kwargs"
  define H where "H = rational_frame (CHR ''R'', KReal fone) zero_kwargs"
  define J :: jumps where
    "J = \<lparr>magnitude_check = [], max_total_jump = Fin 1, extraprec0 = Fin 50\<rparr>"
  have z: "z_key init_ctx (Tower (Mpc fone fzero)) = Some (CHR ''C'', KComplex fone fzero)"
    by (simp add: z_key_def)
  have s: "scan_coeffs example_kernel init_ctx 0 ''Q'' rational_coeffs (c_prec init_ctx) 0
        rational_coeffs init_jumps = Inr J"
    unfolding J_def using rational_scan by (simp add: init_ctx_def)
  have g: "G = hypsum_frame example_kernel init_ctx 0 1 ''Q'' rational_coeffs
             (CHR ''C'', KComplex fone fzero) True zero_kwargs J"
    by (simp add: G_def J_def rational_frame_def)
  have m: "f_maxprec G = 318" "f_prec G = 53" "f_kwargs G = zero_kwargs"
    "f_maxprec H = 318" "f_prec H = 53" "f_kwargs H = zero_kwargs"
    by (simp_all add: G_def H_def rational_frame_fields)
  have r: "run_summator G 50 25 = Inr (KComplex fone fzero, - 50, [])"
    "run_summator H 50 25 = Inr (KReal fone, - 50, [])"
    by (simp_all add: G_def H_def rational_run)
  have j: "jumps_resolved G 50 []" "jumps_resolved H 50 []"
    unfolding G_def H_def by (rule rational_resolved, simp)+
  have a: "\<not> accurate G 50 (- (- 50))" "\<not> accurate H 50 (- (- 50))"
    unfolding G_def H_def by (rule rational_not_accurate)+
  have k: "kw_zeroprec zero_kwargs = Some 40" by (simp add: zero_kwargs_def)
  have c: "c_prec init_ctx = 53" by (simp add: init_ctx_def)
  have e: "extraprec0 J = Fin 50" by (simp add: J_def)
  have t1: "hypsum_loop example_kernel init_ctx G 50 25 [] = Some (Inr (Mpc fzero fzero), [103])
      \<and> hypsum example_kernel init_ctx 0 1 ''Q'' rational_coeffs (Tower (Mpc fone fzero)) True
          zero_kwargs = Some (Inr (Mpc fzero fzero), [103])"
    using hypsum_zero_beyond_threshold [of 50 G 25 "KComplex fone fzero" "- 50" "[]" 40
        example_kernel init_ctx "[]" "Tower (Mpc fone fzero)" "(CHR ''C'', KComplex fone fzero)"
        0 "''Q''" rational_coeffs J 50 G 1 True zero_kwargs "KComplex fone fzero" "- 50" "[]" 40]
      z s g [symmetric] m r j a k c e
    by simp
  have t2: "hypsum_loop example_kernel init_ctx H 50 25 [] = Some (Inr (Mpf fzero), [103])"
    using hypsum_zero_beyond_threshold [of 50 H 25 "KReal fone" "- 50" "[]" 40
        example_kernel init_ctx "[]"]
      m r j a k
    by simp
  show ?thesis
    using z s t1 t2 m r j a k unfolding G_def [symmetric] H_def [symmetric] J_def by simp
qed

end
